theory Spec2Isabelle
  imports Complex_Main "HOL-Library.Sublist"
begin

section \<open>Axes layout: the rectangles handed to the plotting library\<close>

text \<open>
  The layout notebook places axes by literal rectangles
  \<^verbatim>\<open>[left, bottom, width, height]\<close> in figure coordinates:
  \<^verbatim>\<open>
  ax2 = plt.axes([0.65, 0.65, 0.2, 0.2])
  ax1 = fig.add_axes([0.1, 0.5, 0.8, 0.4], xticklabels=[], ylim=(-1.2, 1.2))
  ax2 = fig.add_axes([0.1, 0.1, 0.8, 0.4], ylim=(-1.2, 1.2))
  \<close>
  The decimal literals are read as the fractions they denote.
\<close>

record rect =
  left :: rat
  bottom :: rat
  width :: rat
  height :: rat

definition mk_rect :: "rat \<Rightarrow> rat \<Rightarrow> rat \<Rightarrow> rat \<Rightarrow> rect" where
  "mk_rect l b w h = \<lparr>left = l, bottom = b, width = w, height = h\<rparr>"

definition inset_rect :: rect where
  "inset_rect = mk_rect (65/100) (65/100) (2/10) (2/10)"

definition upper_rect :: rect where
  "upper_rect = mk_rect (1/10) (5/10) (8/10) (4/10)"

definition lower_rect :: rect where
  "lower_rect = mk_rect (1/10) (1/10) (8/10) (4/10)"

definition right_edge :: "rect \<Rightarrow> rat" where
  "right_edge r = left r + width r"

definition top_edge :: "rect \<Rightarrow> rat" where
  "top_edge r = bottom r + height r"

definition in_unit_square :: "rect \<Rightarrow> bool" where
  "in_unit_square r \<longleftrightarrow>
     0 \<le> left r \<and> 0 \<le> bottom r \<and> 0 \<le> width r \<and> 0 \<le> height r \<and>
     right_edge r \<le> 1 \<and> top_edge r \<le> 1"

section \<open>Arrays and the array library's elementwise operations\<close>

text \<open>
  The notebooks compute with the array library's floating-point arrays. Here a
  one-dimensional array is a list of reals and a two-dimensional array a list of rows;
  rounding is not modelled, so every statement below is about the exact real values.
  The library functions themselves are not part of the repository's sources: each
  one a claim depends on is written out from its documented behaviour, under a text
  that starts with "Modelled from the spec".
\<close>

type_synonym array1 = "real list"
type_synonym array2 = "real list list"

definition has_shape :: "array2 \<Rightarrow> nat \<Rightarrow> nat \<Rightarrow> bool" where
  "has_shape A m n \<longleftrightarrow> length A = m \<and> list_all (\<lambda>row. length row = n) A"

text \<open>
  Modelled from the spec: the array library's "grid generation", which is not part of
  the repository's sources. \<^verbatim>\<open>np.linspace(start, stop, num)\<close> gives \<open>num\<close> evenly
  spaced samples, both ends included; a single sample is \<open>start\<close>.
\<close>

definition linspace :: "real \<Rightarrow> real \<Rightarrow> nat \<Rightarrow> array1" where
  "linspace start stop num =
     (if num = 1 then [start]
      else map (\<lambda>k. start + real k * ((stop - start) / real (num - 1))) [0..<num])"

text \<open>
  Modelled from the spec: the array library's "grid generation". \<^verbatim>\<open>np.meshgrid(x, y)\<close>
  with the default \<^verbatim>\<open>indexing='xy'\<close> returns two arrays with one row per element of
  \<open>y\<close> and one column per element of \<open>x\<close>: the first repeats \<open>x\<close> in every row, the
  second repeats \<open>y\<close> in every column.
\<close>

definition meshgrid :: "array1 \<Rightarrow> array1 \<Rightarrow> array2 \<times> array2" where
  "meshgrid x y = (replicate (length y) x, map (\<lambda>v. replicate (length x) v) y)"

text \<open>
  Modelled from the spec: the array library's "vectorized operations", the elementwise
  functions and operators on two-dimensional arrays. The binary ones are only ever
  applied to two arrays of one shape (the two results of \<open>meshgrid\<close>), where
  broadcasting is the position-by-position operation; a scalar operand is applied to
  every element.
\<close>

definition np_sin :: "array2 \<Rightarrow> array2" where
  "np_sin A = map (map sin) A"

definition np_cos :: "array2 \<Rightarrow> array2" where
  "np_cos A = map (map cos) A"

definition arr_pow :: "array2 \<Rightarrow> nat \<Rightarrow> array2" where
  "arr_pow A n = map (map (\<lambda>v. v ^ n)) A"

definition scalar_add :: "real \<Rightarrow> array2 \<Rightarrow> array2" where
  "scalar_add c A = map (map (\<lambda>v. c + v)) A"

definition arr_add :: "array2 \<Rightarrow> array2 \<Rightarrow> array2" where
  "arr_add A B = map2 (map2 (+)) A B"

definition arr_mul :: "array2 \<Rightarrow> array2 \<Rightarrow> array2" where
  "arr_mul A B = map2 (map2 (*)) A B"

subsection \<open>The contour notebook\<close>

text \<open>
  \<^verbatim>\<open>
  def f(x, y):
      return np.sin(x) ** 10 + np.cos(10 + y * x) * np.cos(x)

  x = np.linspace(0, 5, 50)
  y = np.linspace(0, 5, 40)

  X, Y = np.meshgrid(x, y)
  Z = f(X, Y)
  \<close>
\<close>

definition f :: "array2 \<Rightarrow> array2 \<Rightarrow> array2" where
  "f x y = arr_add (arr_pow (np_sin x) 10) (arr_mul (np_cos (scalar_add 10 (arr_mul y x))) (np_cos x))"

definition contour_x :: array1 where
  "contour_x = linspace 0 5 50"

definition contour_y :: array1 where
  "contour_y = linspace 0 5 40"

definition contour_grid :: "array1 \<Rightarrow> array1 \<Rightarrow> array2 \<times> array2 \<times> array2" where
  "contour_grid x y = (case meshgrid x y of (X, Y) \<Rightarrow> (X, Y, f X Y))"


section \<open>Errors\<close>

text \<open>
  The notebooks raise nothing themselves; every error is one the libraries raise.
  \<open>OtherError\<close> carries the name of any exception class not listed.
\<close>

datatype error =
  ValueError | IndexError | KeyError | TypeError | NameError | AttributeError
  | FileNotFoundError | ParserError
  | OtherError string

section \<open>Percentiles and the births table\<close>

text \<open>
  Modelled from the spec: the array library's "basic statistical aggregation
  (percentiles)", \<^verbatim>\<open>np.percentile(a, q)\<close> with its default linear method; the
  library is not part of the repository's sources. The sorted data is read at the
  virtual index \<open>(n - 1) * q / 100\<close>: the two neighbouring order statistics are
  interpolated linearly, an index at or past the last position reads the last element.
  A percentile outside [0, 100] is a \<open>ValueError\<close>; empty data has no element to read
  (\<open>IndexError\<close>).
\<close>

definition lerp :: "real \<Rightarrow> real \<Rightarrow> real \<Rightarrow> real" where
  "lerp a b t = (if t \<ge> 1/2 then b - (b - a) * (1 - t) else a + (b - a) * t)"

definition quantile_linear :: "array1 \<Rightarrow> real \<Rightarrow> real" where
  "quantile_linear arr q =
     (let n = length arr;
          virtual_index = real (n - 1) * q;
          above = (virtual_index \<ge> real (n - 1));
          below = (virtual_index < 0);
          previous_index =
            (if below then 0 else if above then n - 1 else nat \<lfloor>virtual_index\<rfloor>);
          next_index =
            (if below then 0 else if above then n - 1 else nat \<lfloor>virtual_index\<rfloor> + 1);
          gamma =
            (if above then virtual_index + 1
             else virtual_index - real_of_int \<lfloor>virtual_index\<rfloor>)
      in lerp (arr ! previous_index) (arr ! next_index) gamma)"

definition percentile :: "array1 \<Rightarrow> real list \<Rightarrow> error + real list" where
  "percentile a qs =
     (if \<not> list_all (\<lambda>q. 0 \<le> q / 100 \<and> q / 100 \<le> 1) qs then Inl ValueError
      else if a = [] then Inl IndexError
      else Inr (map (\<lambda>q. quantile_linear (sort a) (q / 100)) qs))"

text \<open>
  The linear interpolant of a list at a real position, used to reason about
  \<open>quantile_linear\<close>.
\<close>

definition interp :: "real list \<Rightarrow> real \<Rightarrow> real" where
  "interp s v =
     (let lo = nat \<lfloor>v\<rfloor>; hi = min (lo + 1) (length s - 1)
      in s ! lo + (s ! hi - s ! lo) * (v - real lo))"

subsection \<open>The births cleaning cell\<close>

text \<open>
  \<^verbatim>\<open>
  births = pd.read_csv('data/births.csv')

  quartiles = np.percentile(births['births'], [25, 50, 75])
  mu, sig = quartiles[1], 0.74 * (quartiles[2] - quartiles[0])
  births = births.query('(births > @mu - 5 * @sig) & (births < @mu + 5 * @sig)')
  \<close>
  A table is the list of its rows. A row has the column \<open>births\<close>; its other columns
  are the record's extension, which no function below reads or writes.
  \<open>DataFrame.query\<close> with a boolean row expression keeps, in order, the rows for which
  the expression is true.
\<close>

record births_row =
  births :: real

definition quartile_band :: "array1 \<Rightarrow> error + real \<times> real" where
  "quartile_band col =
     (case percentile col [25, 50, 75] of
        Inl e \<Rightarrow> Inl e
      | Inr quartiles \<Rightarrow> Inr (quartiles ! 1, 0.74 * (quartiles ! 2 - quartiles ! 0)))"



section \<open>Histogram counts\<close>

text \<open>
  Modelled from the spec: the array library's "histogram counts",
  \<^verbatim>\<open>np.histogram(a, bins)\<close> with an integer bin count and no range or weights; the
  library is not part of the repository's sources. The outer edges are the minimum and maximum of the data
  (0 and 1 for empty data, widened by one half on each side when they coincide); the
  bin edges are \<open>bins + 1\<close> evenly spaced values between them. Every value is given the
  index of its bin, the last bin being closed on the right; an index is moved down or up
  by one when the value lies outside the edges of the bin computed first. The counts are
  the number of values per index. A bin count below one is a \<open>ValueError\<close>.
\<close>

definition get_outer_edges :: "array1 \<Rightarrow> real \<times> real" where
  "get_outer_edges a =
     (let (first_edge, last_edge) = (if a = [] then (0, 1) else (Min (set a), Max (set a)))
      in if first_edge = last_edge then (first_edge - 1/2, last_edge + 1/2)
         else (first_edge, last_edge))"

definition bin_index :: "real \<Rightarrow> real \<Rightarrow> nat \<Rightarrow> array1 \<Rightarrow> real \<Rightarrow> int" where
  "bin_index first_edge last_edge n_equal_bins bin_edges v =
     (let f_index = ((v - first_edge) / (last_edge - first_edge)) * real n_equal_bins;
          i0 = \<lfloor>f_index\<rfloor>;
          i1 = (if i0 = int n_equal_bins then i0 - 1 else i0);
          i2 = (if v < bin_edges ! nat i1 then i1 - 1 else i1);
          i3 = (if v \<ge> bin_edges ! nat (i2 + 1) \<and> i2 \<noteq> int n_equal_bins - 1 then i2 + 1 else i2)
      in i3)"

definition bincount :: "int list \<Rightarrow> nat \<Rightarrow> error + nat list" where
  "bincount indices minlength =
     (if list_ex (\<lambda>i. i < 0) indices then Inl ValueError
      else Inr (map (\<lambda>k. count_list indices (int k))
                  [0..<max minlength (nat (fold max indices (-1) + 1))]))"

definition histogram :: "array1 \<Rightarrow> int \<Rightarrow> error + nat list \<times> array1" where
  "histogram a bins =
     (if bins < 1 then Inl ValueError
      else
        let n_equal_bins = nat bins;
            (first_edge, last_edge) = get_outer_edges a;
            bin_edges = linspace first_edge last_edge (n_equal_bins + 1);
            tmp_a = filter (\<lambda>v. v \<ge> first_edge \<and> v \<le> last_edge) a;
            indices = map (bin_index first_edge last_edge n_equal_bins bin_edges) tmp_a
        in case bincount indices n_equal_bins of
             Inl e \<Rightarrow> Inl e
           | Inr n \<Rightarrow> Inr (n, bin_edges))"

text \<open>
  The claim's own words, to compare with: a value is in bin \<open>k\<close> when it lies between the
  bin's two edges, the upper edge excluded except for the last bin.
\<close>

definition in_bin :: "array1 \<Rightarrow> nat \<Rightarrow> nat \<Rightarrow> real \<Rightarrow> bool" where
  "in_bin bin_edges n_bins k v \<longleftrightarrow>
     bin_edges ! k \<le> v \<and>
     (if k = n_bins - 1 then v \<le> bin_edges ! (k + 1) else v < bin_edges ! (k + 1))"

subsection \<open>The histogram notebook\<close>

text \<open>
  \<^verbatim>\<open>
  counts, bin_edges = np.histogram(data, bins=5)
  \<close>
\<close>

definition histogram_cell :: "array1 \<Rightarrow> error + nat list \<times> array1" where
  "histogram_cell data = histogram data 5"

section \<open>Colormaps\<close>

text \<open>
  Modelled from the spec: the plotting library's colormap, "a function mapping scalar
  values to colors" (glossary); the library is not part of the repository's sources.
  A colormap has a name, a number of entries \<open>N\<close> and a lookup table of \<open>N\<close> RGBA rows. A segmented colormap
  builds its table on first use, and building can fail: \<open>cm_table\<close> is the table or the
  error every lookup then raises. Calling a colormap on integers reads the table rows
  at those positions (a position past the end reads the last row).

  \<^verbatim>\<open>LinearSegmentedColormap.from_list(name, colors, N)\<close> checks that the colours are RGBA
  values in [0, 1], places them at \<open>np.linspace(0, 1, len(colors))\<close> and makes a colormap
  whose table has \<open>N\<close> rows. Each channel of the table is made by the library's
  lookup-table routine from the anchor rows \<open>(x, y0, y1)\<close>: the anchors must start at
  \<open>x = 0\<close>, end at \<open>x = 1\<close> and increase; the table is the linear interpolation of the
  anchors at \<open>N\<close> evenly spaced positions, clipped to [0, 1].
\<close>

record colormap =
  cm_name :: string
  cm_N :: nat
  cm_table :: "error + array2"

definition cmap_call :: "colormap \<Rightarrow> nat list \<Rightarrow> error + array2" where
  "cmap_call cmap X =
     (case cm_table cmap of
        Inl e \<Rightarrow> Inl e
      | Inr lut \<Rightarrow> Inr (map (\<lambda>i. lut ! (if i > cm_N cmap - 1 then cm_N cmap - 1 else i)) X))"

definition searchsorted :: "array1 \<Rightarrow> real \<Rightarrow> nat" where
  "searchsorted a v = length (takeWhile (\<lambda>e. e < v) a)"

definition clip01 :: "real \<Rightarrow> real" where
  "clip01 v = min 1 (max 0 v)"

definition create_lookup_table :: "nat \<Rightarrow> (real \<times> real \<times> real) list \<Rightarrow> error + array1" where
  "create_lookup_table N data =
     (let x = map fst data;
          y0 = map (\<lambda>d. fst (snd d)) data;
          y1 = map (\<lambda>d. snd (snd d)) data
      in if data = [] then Inl IndexError
         else if hd x \<noteq> 0 \<or> last x \<noteq> 1 then Inl ValueError
         else if \<not> sorted x then Inl ValueError
         else if N = 1 then Inr [clip01 (last y0)]
         else
           let xs = map (\<lambda>v. v * real (N - 1)) x;
               xind = map (\<lambda>v. real (N - 1) * v) (linspace 0 1 N);
               ind = butlast (tl (map (searchsorted xs) xind));
               distance = map2 (\<lambda>xi i. (xi - xs ! (i - 1)) / (xs ! i - xs ! (i - 1)))
                            (butlast (tl xind)) ind;
               inner = map2 (\<lambda>d i. d * (y0 ! i - y1 ! (i - 1)) + y1 ! (i - 1)) distance ind
           in Inr (map clip01 ([hd y1] @ inner @ [last y0])))"

definition column :: "nat \<Rightarrow> array2 \<Rightarrow> array1" where
  "column k A = map (\<lambda>row. row ! k) A"

definition segment_table :: "nat \<Rightarrow> array1 \<Rightarrow> array2 \<Rightarrow> error + array2" where
  "segment_table N vals colors =
     (let channel = (\<lambda>k. create_lookup_table N (zip vals (zip (column k colors) (column k colors))))
      in case channel 0 of Inl e \<Rightarrow> Inl e | Inr r \<Rightarrow>
         (case channel 1 of Inl e \<Rightarrow> Inl e | Inr g \<Rightarrow>
         (case channel 2 of Inl e \<Rightarrow> Inl e | Inr b \<Rightarrow>
         (case channel 3 of Inl e \<Rightarrow> Inl e | Inr a \<Rightarrow>
            if length r = N \<and> length g = N \<and> length b = N \<and> length a = N
            then Inr (map (\<lambda>i. [r ! i, g ! i, b ! i, a ! i]) [0..<N])
            else Inl ValueError))))"

definition from_list :: "string \<Rightarrow> array2 \<Rightarrow> nat \<Rightarrow> error + colormap" where
  "from_list name colors N =
     (if colors = [] then Inl IndexError
      else if \<not> list_all (\<lambda>row. length row = 4) colors then Inl ValueError
      else if list_ex (list_ex (\<lambda>v. v < 0 \<or> v > 1)) colors then Inl ValueError
      else Inr \<lparr>cm_name = name, cm_N = N,
                cm_table = segment_table N (linspace 0 1 (length colors)) colors\<rparr>)"

subsection \<open>The colorbar notebook's grayscale conversion\<close>

text \<open>
  \<^verbatim>\<open>
  def grayscale_cmap(cmap):
      """Return a grayscale version of the given colormap"""
      cmap = plt.cm.get_cmap(cmap)
      colors = cmap(np.arange(cmap.N))

      # convert RGBA to perceived grayscale luminance
      # cf. http://alienryderflex.com/hsp.html
      RGB_weight = [0.299, 0.587, 0.114]
      luminance = np.sqrt(np.dot(colors[:, :3] ** 2, RGB_weight))
      colors[:, :3] = luminance[:, np.newaxis]

      return LinearSegmentedColormap.from_list(cmap.name + "_gray", colors, cmap.N)
  \<close>
  \<open>get_cmap\<close> returns a colormap object as it is, so the argument here is the colormap.
  \<open>dot\<close> is the matrix-vector product; the slice assignment overwrites the first three
  columns of every row with the row's luminance.
\<close>

definition RGB_weight :: array1 where
  "RGB_weight = [0.299, 0.587, 0.114]"

definition dot :: "array2 \<Rightarrow> array1 \<Rightarrow> array1" where
  "dot A w = map (\<lambda>row. sum_list (map2 (*) row w)) A"

definition grayscale_cmap :: "colormap \<Rightarrow> error + colormap" where
  "grayscale_cmap cmap =
     (case cmap_call cmap [0..<cm_N cmap] of
        Inl e \<Rightarrow> Inl e
      | Inr colors \<Rightarrow>
          let luminance = map sqrt (dot (map (\<lambda>row. map (\<lambda>v. v ^ 2) (take 3 row)) colors) RGB_weight);
              colors' = map2 (\<lambda>row l. replicate (min 3 (length row)) l @ drop 3 row) colors luminance
          in from_list (cm_name cmap @ ''_gray'') colors' (cm_N cmap))"




section \<open>Notebook cells as programs on the kernel's state\<close>

text \<open>
  A notebook is a list of cells; a cell is a list of top-level statements that the
  kernel runs in order in one global namespace. The state of the kernel is a store:
  names are bound to addresses and addresses hold objects, so that rebinding a name
  (\<^verbatim>\<open>x = ...\<close>) and assigning into the object a name is bound to (\<^verbatim>\<open>I[mask] = ...\<close>)
  are different updates. \<open>fresh\<close> is the next unused address; \<open>lib\<close> is whatever state
  the libraries keep for themselves (current figure and axes, the global random
  generator, files), of which nothing is assumed.

  An object is a float array, a boolean mask, a seeded random generator, a Python
  integer or string, or \<open>Lib\<close>: any other object (module, function, figure, axes, table,
  estimator, list, dictionary), of which only the identity is kept, tagged with the
  text that made it. Views that share memory with another array are not modelled.
\<close>

type_synonym rng = "nat list"

datatype obj =
    Arr1 array1
  | Arr2 array2
  | Mask2 "bool list list"
  | Gen rng
  | IntVal int
  | StrVal string
  | Lib string

record 'l kernel =
  names :: "string \<rightharpoonup> nat"
  heap :: "nat \<rightharpoonup> obj"
  fresh :: nat
  lib :: 'l

text \<open>
  Modelled from the spec: the external array, plotting and table libraries (section 6),
  which are not part of the repository's sources, as a parameter. \<open>lib_call\<close> gives, for the text of a
  library call, the argument objects and the libraries' own state, the error the call
  raises or the objects it returns, and the libraries' new state. A seeded generator
  \<^verbatim>\<open>np.random.RandomState(seed)\<close> is a value determined by the seed; drawing from it
  returns the sample and the generator's next state and reads nothing else.
\<close>

record 'l world =
  lib_call :: "string \<Rightarrow> obj list \<Rightarrow> 'l \<Rightarrow> (error + obj list) \<times> 'l"
  rs_seed :: "int \<Rightarrow> rng"
  rs_randn :: "rng \<Rightarrow> nat \<Rightarrow> array1 \<times> rng"
  rs_rand :: "rng \<Rightarrow> nat \<Rightarrow> array1 \<times> rng"

text \<open>
  A statement runs in a world from a state; it returns the state it leaves and the
  error it raised, if any.
\<close>

type_synonym 'l stmt = "'l world \<Rightarrow> 'l kernel \<Rightarrow> 'l kernel \<times> error option"

definition value_of :: "'l kernel \<Rightarrow> string \<Rightarrow> obj option" where
  "value_of s n = (case names s n of None \<Rightarrow> None | Some a \<Rightarrow> heap s a)"

definition bind_name :: "string \<Rightarrow> obj \<Rightarrow> 'l kernel \<Rightarrow> 'l kernel" where
  "bind_name n v s =
     s\<lparr>names := (names s)(n \<mapsto> fresh s), heap := (heap s)(fresh s \<mapsto> v),
       fresh := Suc (fresh s)\<rparr>"

fun bind_all :: "string list \<Rightarrow> obj list \<Rightarrow> 'l kernel \<Rightarrow> 'l kernel" where
  "bind_all (n # ns) (v # vs) s = bind_all ns vs (bind_name n v s)"
| "bind_all _ _ s = s"

text \<open>Reading a name that is not bound is Python's \<open>NameError\<close>.\<close>

fun lookup_all :: "'l kernel \<Rightarrow> string list \<Rightarrow> error + obj list" where
  "lookup_all s [] = Inr []"
| "lookup_all s (n # ns) =
     (case value_of s n of
        None \<Rightarrow> Inl NameError
      | Some v \<Rightarrow> (case lookup_all s ns of Inl e \<Rightarrow> Inl e | Inr vs \<Rightarrow> Inr (v # vs)))"

text \<open>
  \<^verbatim>\<open>t1, ..., tk = <library expression>\<close>: the names read are looked up, the library is
  called, and the targets are bound to the returned objects (a wrong number of them is
  the \<open>ValueError\<close> of unpacking). An \<^verbatim>\<open>import\<close> is such an assignment.
\<close>

definition assign :: "string list \<Rightarrow> string \<Rightarrow> string list \<Rightarrow> 'l stmt" where
  "assign targets label reads w s =
     (case lookup_all s reads of
        Inl e \<Rightarrow> (s, Some e)
      | Inr args \<Rightarrow>
          (case lib_call w label args (lib s) of
             (Inl e, l) \<Rightarrow> (s\<lparr>lib := l\<rparr>, Some e)
           | (Inr vals, l) \<Rightarrow>
               if length vals \<noteq> length targets then (s\<lparr>lib := l\<rparr>, Some ValueError)
               else (bind_all targets vals (s\<lparr>lib := l\<rparr>), None)))"

text \<open>
  An expression statement: a library call (or a kernel command, or a call of a function
  the notebook defines, which works on local names only) whose result is not bound.
\<close>

definition call :: "string \<Rightarrow> string list \<Rightarrow> 'l stmt" where
  "call label reads w s =
     (case lookup_all s reads of
        Inl e \<Rightarrow> (s, Some e)
      | Inr args \<Rightarrow>
          (case lib_call w label args (lib s) of
             (Inl e, l) \<Rightarrow> (s\<lparr>lib := l\<rparr>, Some e)
           | (Inr vals, l) \<Rightarrow> (s\<lparr>lib := l\<rparr>, None)))"

text \<open>
  Binding a name to a value that needs no library: a literal, a \<^verbatim>\<open>def\<close>, a
  \<^verbatim>\<open>lambda\<close>, the variable of a \<^verbatim>\<open>for\<close> loop.
\<close>

definition define_name :: "string \<Rightarrow> obj \<Rightarrow> 'l stmt" where
  "define_name target v w s = (bind_name target v s, None)"

text \<open>
  An assignment whose value is written out here as a function of the objects read.
\<close>

definition compute ::
  "string list \<Rightarrow> string list \<Rightarrow> (obj list \<Rightarrow> error + obj list) \<Rightarrow> 'l stmt" where
  "compute targets reads fn w s =
     (case lookup_all s reads of
        Inl e \<Rightarrow> (s, Some e)
      | Inr args \<Rightarrow>
          (case fn args of
             Inl e \<Rightarrow> (s, Some e)
           | Inr vals \<Rightarrow>
               if length vals \<noteq> length targets then (s, Some ValueError)
               else (bind_all targets vals s, None)))"

text \<open>
  \<^verbatim>\<open>rng = np.random.RandomState(seed)\<close> and \<^verbatim>\<open>target = post(rng.sampler(n))\<close>: drawing
  replaces the generator object's state in place and binds the sample.
\<close>

definition new_generator :: "string \<Rightarrow> string list \<Rightarrow> int \<Rightarrow> 'l stmt" where
  "new_generator target reads seed w s =
     (case lookup_all s reads of
        Inl e \<Rightarrow> (s, Some e)
      | Inr args \<Rightarrow> (bind_name target (Gen (rs_seed w seed)) s, None))"

definition draw ::
  "string \<Rightarrow> string \<Rightarrow> ('l world \<Rightarrow> rng \<Rightarrow> nat \<Rightarrow> array1 \<times> rng) \<Rightarrow> nat \<Rightarrow> (real \<Rightarrow> real) \<Rightarrow>
   'l stmt" where
  "draw target gen sampler n post w s =
     (case names s gen of
        None \<Rightarrow> (s, Some NameError)
      | Some a \<Rightarrow>
          (case heap s a of
             Some (Gen g) \<Rightarrow>
               (case sampler w g n of
                  (vals, g') \<Rightarrow>
                    (bind_name target (Arr1 (map post vals))
                       (s\<lparr>heap := (heap s)(a \<mapsto> Gen g')\<rparr>),
                     None))
           | _ \<Rightarrow> (s, Some AttributeError)))"

text \<open>
  A library call two of whose arguments are drawn on the spot from a generator:
  \<^verbatim>\<open>plt.plot(rng.rand(5), rng.rand(5), ...)\<close>.
\<close>

definition call_with_draws ::
  "string \<Rightarrow> ('l world \<Rightarrow> rng \<Rightarrow> nat \<Rightarrow> array1 \<times> rng) \<Rightarrow> nat \<Rightarrow> string \<Rightarrow> string list \<Rightarrow>
   'l stmt" where
  "call_with_draws gen sampler n label reads w s =
     (case names s gen of
        None \<Rightarrow> (s, Some NameError)
      | Some a \<Rightarrow>
          (case heap s a of
             Some (Gen g) \<Rightarrow>
               (case sampler w g n of
                  (v1, g1) \<Rightarrow>
                    (case sampler w g1 n of
                       (v2, g2) \<Rightarrow>
                         (let s' = s\<lparr>heap := (heap s)(a \<mapsto> Gen g2)\<rparr>
                          in case lookup_all s' reads of
                               Inl e \<Rightarrow> (s', Some e)
                             | Inr args \<Rightarrow>
                                 (case lib_call w label (Arr1 v1 # Arr1 v2 # args) (lib s') of
                                    (Inl e, l) \<Rightarrow> (s'\<lparr>lib := l\<rparr>, Some e)
                                  | (Inr vals, l) \<Rightarrow> (s'\<lparr>lib := l\<rparr>, None)))))
           | _ \<Rightarrow> (s, Some AttributeError)))"

text \<open>
  Boolean-mask assignment \<^verbatim>\<open>A[mask] = values\<close> on a two-dimensional array: the
  positions where the mask is true receive the values in row-major order. The mask must
  have the array's shape (\<open>IndexError\<close>) and there must be one value per true position,
  or a single value for all of them (\<open>ValueError\<close>).
\<close>

fun fill_row :: "array1 \<Rightarrow> bool list \<Rightarrow> array1 \<Rightarrow> array1 \<times> array1" where
  "fill_row (a # row) (m # ms) vals =
     (if m then
        (case vals of
           [] \<Rightarrow> (case fill_row row ms [] of (r, rest) \<Rightarrow> (a # r, rest))
         | v # vs \<Rightarrow> (case fill_row row ms vs of (r, rest) \<Rightarrow> (v # r, rest)))
      else (case fill_row row ms vals of (r, rest) \<Rightarrow> (a # r, rest)))"
| "fill_row row _ vals = (row, vals)"

fun fill_rows :: "array2 \<Rightarrow> bool list list \<Rightarrow> array1 \<Rightarrow> array2" where
  "fill_rows (row # rows) (ms # mss) vals =
     (case fill_row row ms vals of (r, rest) \<Rightarrow> r # fill_rows rows mss rest)"
| "fill_rows rows _ vals = rows"

definition count_true :: "bool list list \<Rightarrow> nat" where
  "count_true M = sum_list (map (\<lambda>ms. length (filter (\<lambda>m. m) ms)) M)"

definition setitem_mask2 :: "array2 \<Rightarrow> bool list list \<Rightarrow> array1 \<Rightarrow> error + array2" where
  "setitem_mask2 A M vals =
     (if map length M \<noteq> map length A then Inl IndexError
      else if length vals = count_true M then Inr (fill_rows A M vals)
      else if length vals = 1
        then Inr (fill_rows A M (replicate (count_true M) (hd vals)))
      else Inl ValueError)"

text \<open>
  \<^verbatim>\<open>target[mask] = <library expression>\<close>: the right-hand side is evaluated first, then
  the object that \<open>target\<close> is bound to is overwritten in place; no name is rebound.
\<close>

definition setitem_masked :: "string \<Rightarrow> string \<Rightarrow> string \<Rightarrow> string list \<Rightarrow> 'l stmt" where
  "setitem_masked target msk label reads w s =
     (case lookup_all s reads of
        Inl e \<Rightarrow> (s, Some e)
      | Inr args \<Rightarrow>
          (case lib_call w label args (lib s) of
             (Inl e, l) \<Rightarrow> (s\<lparr>lib := l\<rparr>, Some e)
           | (Inr vals, l) \<Rightarrow>
               (let s' = s\<lparr>lib := l\<rparr>
                in case (names s' target, value_of s' target, value_of s' msk, vals) of
                     (Some a, Some (Arr2 A), Some (Mask2 M), [Arr1 vs]) \<Rightarrow>
                       (case setitem_mask2 A M vs of
                          Inl e \<Rightarrow> (s', Some e)
                        | Inr A' \<Rightarrow> (s'\<lparr>heap := (heap s')(a \<mapsto> Arr2 A')\<rparr>, None))
                   | (None, _, _, _) \<Rightarrow> (s', Some NameError)
                   | (_, _, None, _) \<Rightarrow> (s', Some NameError)
                   | _ \<Rightarrow> (s', Some TypeError))))"

text \<open>
  Running a cell: the statements in order; the first error ends the cell, and the
  state is the one left at that point.
\<close>

fun run_cell :: "'l stmt list \<Rightarrow> 'l stmt" where
  "run_cell [] w s = (s, None)"
| "run_cell (st # sts) w s =
     (case st w s of
        (s', Some e) \<Rightarrow> (s', Some e)
      | (s', None) \<Rightarrow> run_cell sts w s')"

text \<open>A \<^verbatim>\<open>for\<close> loop over a literal sequence is its body once per element.\<close>

definition for_each :: "'a list \<Rightarrow> ('a \<Rightarrow> 'l stmt list) \<Rightarrow> 'l stmt list" where
  "for_each xs body = concat (map body xs)"

section \<open>The notebooks\<close>

text \<open>
  Every code cell of the eight notebooks, statement by statement, in the order of the
  source files; a cell is named by its notebook and its position among the notebook's
  cells. The label of a library call is its source text with the string quotes dropped,
  followed by the global names the statement reads. Where a claim is about the value of
  an array, the assignment is written out with \<open>compute\<close>; elsewhere the value is the one
  the library returns (\<open>assign\<close>). A table or a list that a statement changes in place
  (\<^verbatim>\<open>births['day'] = ...\<close>, \<^verbatim>\<open>lines += ...\<close>) is a \<open>Lib\<close> object, whose contents are
  not modelled.
\<close>

text \<open>
  \<^verbatim>\<open>I = np.sin(x) * np.cos(x[:, np.newaxis])\<close>: a row vector times a column vector,
  broadcast to a square array with \<open>I[i][j] = sin(x[j]) * cos(x[i])\<close>.
\<close>

definition sin_cos_image :: "array1 \<Rightarrow> array2" where
  "sin_cos_image x = map (\<lambda>xi. map (\<lambda>xj. sin xj * cos xi) x) x"

subsection \<open>04.00-Introduction-To-Matplotlib.ipynb\<close>

definition intro_cell4 :: "'l stmt list" where
  "intro_cell4 =
     [assign [''mpl''] ''import matplotlib'' [],
      assign [''plt''] ''import matplotlib.pyplot'' []]"

definition intro_cell7 :: "'l stmt list" where
  "intro_cell7 =
     [call ''plt.style.use(classic)'' [''plt'']]"

definition intro_cell14 :: "'l stmt list" where
  "intro_cell14 =
     [call ''%matplotlib inline'' []]"

definition intro_cell16 :: "'l stmt list" where
  "intro_cell16 =
     [assign [''np''] ''import numpy'' [],
      assign [''x''] ''np.linspace(0, 10, 100)'' [''np''],
      assign [''fig''] ''plt.figure()'' [''plt''],
      call ''plt.plot(x, np.sin(x), -)'' [''plt'', ''x'', ''np''],
      call ''plt.plot(x, np.cos(x), --)'' [''plt'', ''x'', ''np'']]"

definition intro_cell18 :: "'l stmt list" where
  "intro_cell18 =
     [call ''fig.savefig(my_figure.png)'' [''fig'']]"

definition intro_cell20 :: "'l stmt list" where
  "intro_cell20 =
     [call ''!ls -lh my_figure.png'' []]"

definition intro_cell22 :: "'l stmt list" where
  "intro_cell22 =
     [assign [''Image''] ''from IPython.display import Image'' [],
      call ''Image(my_figure.png)'' [''Image'']]"

definition intro_cell24 :: "'l stmt list" where
  "intro_cell24 =
     [call ''fig.canvas.get_supported_filetypes()'' [''fig'']]"

definition intro_cell28 :: "'l stmt list" where
  "intro_cell28 =
     [call ''plt.figure()'' [''plt''],
      call ''plt.subplot(2, 1, 1)'' [''plt''],
      call ''plt.plot(x, np.sin(x))'' [''plt'', ''x'', ''np''],
      call ''plt.subplot(2, 1, 2)'' [''plt''],
      call ''plt.plot(x, np.cos(x))'' [''plt'', ''x'', ''np'']]"

definition intro_cell31 :: "'l stmt list" where
  "intro_cell31 =
     [assign [''fig'', ''ax''] ''plt.subplots(2)'' [''plt''],
      call ''ax[0].plot(x, np.sin(x))'' [''ax'', ''x'', ''np''],
      call ''ax[1].plot(x, np.cos(x))'' [''ax'', ''x'', ''np'']]"

definition intro_notebook :: "'l stmt list list" where
  "intro_notebook =
     [intro_cell4,
      intro_cell7,
      intro_cell14,
      intro_cell16,
      intro_cell18,
      intro_cell20,
      intro_cell22,
      intro_cell24,
      intro_cell28,
      intro_cell31]"

subsection \<open>04.02-Simple-Scatter-Plots.ipynb\<close>

definition scatter_cell2 :: "'l stmt list" where
  "scatter_cell2 =
     [call ''%matplotlib inline'' [],
      assign [''plt''] ''import matplotlib.pyplot'' [],
      call ''plt.style.use(seaborn-whitegrid)'' [''plt''],
      assign [''np''] ''import numpy'' []]"

definition scatter_cell4 :: "'l stmt list" where
  "scatter_cell4 =
     [compute [''x''] [''np''] (\<lambda>args. Inr [Arr1 (linspace 0 10 30)]),
      compute [''y''] [''np'', ''x'']
        (\<lambda>args. case args of [_, Arr1 x] \<Rightarrow> Inr [Arr1 (map sin x)] | _ \<Rightarrow> Inl TypeError),
      call ''plt.plot(x, y, o, color=black)'' [''plt'', ''x'', ''y'']]"

definition scatter_cell6 :: "'l stmt list" where
  "scatter_cell6 =
     [new_generator ''rng'' [''np''] 0] @
     for_each [''o'', ''.'', '','', ''x'', ''+'', ''v'', ''^'', ''<'', ''>'', ''s'', ''d'']
        (\<lambda>marker. [define_name ''marker'' (StrVal marker),
           call_with_draws ''rng'' rs_rand 5
             ''plt.plot(rng.rand(5), rng.rand(5), marker, label=marker={0}.format(marker))''
             [''plt'', ''marker'']]) @
     [call ''plt.legend(numpoints=1)'' [''plt''],
      call ''plt.xlim(0, 1.8)'' [''plt'']]"

definition scatter_cell8 :: "'l stmt list" where
  "scatter_cell8 =
     [call ''plt.plot(x, y, -ok)'' [''plt'', ''x'', ''y'']]"

definition scatter_cell10 :: "'l stmt list" where
  "scatter_cell10 =
     [call
        ''plt.plot(x, y, -p, color=gray, markersize=15, linewidth=4, markerfacecolor=white, markeredgecolor=gray, markeredgewidth=2)''
        [''plt'', ''x'', ''y''],
      call ''plt.ylim(-1.2, 1.2)'' [''plt'']]"

definition scatter_cell13 :: "'l stmt list" where
  "scatter_cell13 =
     [call ''plt.scatter(x, y, marker=o)'' [''plt'', ''x'', ''y'']]"

definition scatter_cell15 :: "'l stmt list" where
  "scatter_cell15 =
     [new_generator ''rng'' [''np''] 0,
      draw ''x'' ''rng'' rs_randn 100 (\<lambda>v. v),
      draw ''y'' ''rng'' rs_randn 100 (\<lambda>v. v),
      draw ''colors'' ''rng'' rs_rand 100 (\<lambda>v. v),
      draw ''sizes'' ''rng'' rs_rand 100 (\<lambda>v. 1000 * v),
      call ''plt.scatter(x, y, c=colors, s=sizes, alpha=0.3, cmap=viridis)''
        [''plt'', ''x'', ''y'', ''colors'', ''sizes''],
      call ''plt.colorbar()'' [''plt'']]"

definition scatter_cell17 :: "'l stmt list" where
  "scatter_cell17 =
     [call ''!conda install -y scikit-learn'' []]"

definition scatter_cell18 :: "'l stmt list" where
  "scatter_cell18 =
     [assign [''load_iris''] ''from sklearn.datasets import load_iris'' [],
      assign [''iris''] ''load_iris()'' [''load_iris''],
      assign [''features''] ''iris.data.T'' [''iris''],
      call
        ''plt.scatter(features[0], features[1], alpha=0.2, s=100*features[3], c=iris.target, cmap=viridis)''
        [''plt'', ''features'', ''iris''],
      call ''plt.xlabel(iris.feature_names[0])'' [''plt'', ''iris''],
      call ''plt.ylabel(iris.feature_names[1])'' [''plt'', ''iris'']]"

definition scatter_notebook :: "'l stmt list list" where
  "scatter_notebook =
     [scatter_cell2,
      scatter_cell4,
      scatter_cell6,
      scatter_cell8,
      scatter_cell10,
      scatter_cell13,
      scatter_cell15,
      scatter_cell17,
      scatter_cell18]"

subsection \<open>04.04-Density-and-Contour-Plots.ipynb\<close>

definition contour_cell2 :: "'l stmt list" where
  "contour_cell2 =
     [call ''%matplotlib inline'' [],
      assign [''plt''] ''import matplotlib.pyplot'' [],
      call ''plt.style.use(seaborn-white)'' [''plt''],
      assign [''np''] ''import numpy'' []]"

definition contour_cell5 :: "'l stmt list" where
  "contour_cell5 =
     [define_name ''f'' (Lib ''def f(x, y)'')]"

definition contour_cell7 :: "'l stmt list" where
  "contour_cell7 =
     [compute [''x''] [''np''] (\<lambda>args. Inr [Arr1 contour_x]),
      compute [''y''] [''np''] (\<lambda>args. Inr [Arr1 contour_y]),
      compute [''X'', ''Y''] [''np'', ''x'', ''y'']
        (\<lambda>args. case args of
           [_, Arr1 x, Arr1 y] \<Rightarrow> (case meshgrid x y of (X, Y) \<Rightarrow> Inr [Arr2 X, Arr2 Y])
         | _ \<Rightarrow> Inl TypeError),
      compute [''Z''] [''f'', ''np'', ''X'', ''Y'']
        (\<lambda>args. case args of [_, _, Arr2 X, Arr2 Y] \<Rightarrow> Inr [Arr2 (f X Y)] | _ \<Rightarrow> Inl TypeError)]"

definition contour_cell9 :: "'l stmt list" where
  "contour_cell9 =
     [call ''plt.contour(X, Y, Z, colors=black)'' [''plt'', ''X'', ''Y'', ''Z'']]"

definition contour_cell11 :: "'l stmt list" where
  "contour_cell11 =
     [call ''plt.contour(X, Y, Z, 20, cmap=RdGy)'' [''plt'', ''X'', ''Y'', ''Z'']]"

definition contour_cell13 :: "'l stmt list" where
  "contour_cell13 =
     [call ''plt.contourf(X, Y, Z, 20, cmap=RdGy)'' [''plt'', ''X'', ''Y'', ''Z''],
      call ''plt.colorbar()'' [''plt'']]"

definition contour_cell15 :: "'l stmt list" where
  "contour_cell15 =
     [call ''plt.imshow(Z, extent=[0, 5, 0, 5], origin=lower, cmap=RdGy)'' [''plt'', ''Z''],
      call ''plt.colorbar()'' [''plt''],
      call ''plt.axis(image)'' [''plt''],
      call ''plt.axis()'' [''plt'']]"

definition contour_cell18 :: "'l stmt list" where
  "contour_cell18 =
     [assign [''contours''] ''plt.contour(X, Y, Z, 3, colors=black)''
        [''plt'', ''X'', ''Y'', ''Z''],
      call ''plt.clabel(contours, inline=True, fontsize=8)'' [''plt'', ''contours''],
      call ''plt.imshow(Z, extent=[0, 5, 0, 5], origin=lower, cmap=RdGy, alpha=0.5)''
        [''plt'', ''Z''],
      call ''plt.colorbar()'' [''plt'']]"

definition contour_notebook :: "'l stmt list list" where
  "contour_notebook =
     [contour_cell2,
      contour_cell5,
      contour_cell7,
      contour_cell9,
      contour_cell11,
      contour_cell13,
      contour_cell15,
      contour_cell18]"

subsection \<open>04.05-Histograms-and-Binnings.ipynb\<close>

definition hist_cell2 :: "'l stmt list" where
  "hist_cell2 =
     [call ''%matplotlib inline'' [],
      assign [''np''] ''import numpy'' [],
      assign [''plt''] ''import matplotlib.pyplot'' [],
      call ''plt.style.use(seaborn-white)'' [''plt''],
      assign [''data''] ''np.random.randn(1000)'' [''np'']]"

definition hist_cell3 :: "'l stmt list" where
  "hist_cell3 =
     [call ''plt.hist(data)'' [''plt'', ''data'']]"

definition hist_cell5 :: "'l stmt list" where
  "hist_cell5 =
     [call
        ''plt.hist(data, bins=30, density=True, alpha=0.5, histtype=stepfilled, color=steelblue, edgecolor=none)''
        [''plt'', ''data'']]"

definition hist_cell7 :: "'l stmt list" where
  "hist_cell7 =
     [assign [''x1''] ''np.random.normal(0, 0.8, 1000)'' [''np''],
      assign [''x2''] ''np.random.normal(-2, 1, 1000)'' [''np''],
      assign [''x3''] ''np.random.normal(3, 2, 1000)'' [''np''],
      define_name ''kwargs'' (Lib ''dict(histtype=stepfilled, alpha=0.3, density=True, bins=40)''),
      call ''plt.hist(x1, **kwargs)'' [''plt'', ''x1'', ''kwargs''],
      call ''plt.hist(x2, **kwargs)'' [''plt'', ''x2'', ''kwargs''],
      call ''plt.hist(x3, **kwargs)'' [''plt'', ''x3'', ''kwargs'']]"

definition hist_cell9 :: "'l stmt list" where
  "hist_cell9 =
     [compute [''counts'', ''bin_edges''] [''np'', ''data'']
        (\<lambda>args. case args of
           [_, Arr1 data] \<Rightarrow>
             (case histogram_cell data of
                Inl e \<Rightarrow> Inl e
              | Inr (counts, bin_edges) \<Rightarrow> Inr [Arr1 (map real counts), Arr1 bin_edges])
         | _ \<Rightarrow> Inl TypeError),
      call ''print(counts)'' [''counts'']]"

definition hist_cell11 :: "'l stmt list" where
  "hist_cell11 =
     [define_name ''mean'' (Lib ''[0, 0]''),
      define_name ''cov'' (Lib ''[[1, 1], [1, 2]]''),
      assign [''x'', ''y''] ''np.random.multivariate_normal(mean, cov, 10000).T''
        [''np'', ''mean'', ''cov'']]"

definition hist_cell13 :: "'l stmt list" where
  "hist_cell13 =
     [call ''plt.hist2d(x, y, bins=30, cmap=Blues)'' [''plt'', ''x'', ''y''],
      assign [''cb''] ''plt.colorbar()'' [''plt''],
      call ''cb.set_label(counts in bin)'' [''cb'']]"

definition hist_cell15 :: "'l stmt list" where
  "hist_cell15 =
     [assign [''counts'', ''xedges'', ''yedges''] ''np.histogram2d(x, y, bins=30)''
        [''np'', ''x'', ''y'']]"

definition hist_cell18 :: "'l stmt list" where
  "hist_cell18 =
     [call ''plt.hexbin(x, y, gridsize=30, cmap=Blues)'' [''plt'', ''x'', ''y''],
      assign [''cb''] ''plt.colorbar(label=count in bin)'' [''plt'']]"

definition hist_cell21 :: "'l stmt list" where
  "hist_cell21 =
     [assign [''gaussian_kde''] ''from scipy.stats import gaussian_kde'' [],
      assign [''data''] ''np.vstack([x, y])'' [''np'', ''x'', ''y''],
      assign [''kde''] ''gaussian_kde(data)'' [''gaussian_kde'', ''data''],
      assign [''xgrid''] ''np.linspace(-3.5, 3.5, 40)'' [''np''],
      assign [''ygrid''] ''np.linspace(-6, 6, 40)'' [''np''],
      assign [''Xgrid'', ''Ygrid''] ''np.meshgrid(xgrid, ygrid)'' [''np'', ''xgrid'', ''ygrid''],
      assign [''Z''] ''kde.evaluate(np.vstack([Xgrid.ravel(), Ygrid.ravel()]))''
        [''kde'', ''np'', ''Xgrid'', ''Ygrid''],
      call
        ''plt.imshow(Z.reshape(Xgrid.shape), origin=lower, aspect=auto, extent=[-3.5, 3.5, -6, 6], cmap=Blues)''
        [''plt'', ''Z'', ''Xgrid''],
      assign [''cb''] ''plt.colorbar()'' [''plt''],
      call ''cb.set_label(density)'' [''cb'']]"

definition hist_notebook :: "'l stmt list list" where
  "hist_notebook =
     [hist_cell2,
      hist_cell3,
      hist_cell5,
      hist_cell7,
      hist_cell9,
      hist_cell11,
      hist_cell13,
      hist_cell15,
      hist_cell18,
      hist_cell21]"

subsection \<open>04.06-Customizing-Legends.ipynb\<close>

definition legends_cell2 :: "'l stmt list" where
  "legends_cell2 =
     [assign [''plt''] ''import matplotlib.pyplot'' [],
      call ''plt.style.use(classic)'' [''plt'']]"

definition legends_cell3 :: "'l stmt list" where
  "legends_cell3 =
     [call ''%matplotlib inline'' [],
      assign [''np''] ''import numpy'' []]"

definition legends_cell4 :: "'l stmt list" where
  "legends_cell4 =
     [assign [''x''] ''np.linspace(0, 10, 1000)'' [''np''],
      assign [''fig'', ''ax''] ''plt.subplots()'' [''plt''],
      call ''ax.plot(x, np.sin(x), -b, label=Sine)'' [''ax'', ''x'', ''np''],
      call ''ax.plot(x, np.cos(x), --r, label=Cosine)'' [''ax'', ''x'', ''np''],
      call ''ax.axis(equal)'' [''ax''],
      assign [''leg''] ''ax.legend()'' [''ax'']]"

definition legends_cell6 :: "'l stmt list" where
  "legends_cell6 =
     [call ''ax.legend(loc=upper left, frameon=False)'' [''ax''],
      call ''fig'' [''fig'']]"

definition legends_cell8 :: "'l stmt list" where
  "legends_cell8 =
     [call ''ax.legend(frameon=False, loc=lower center, ncol=2)'' [''ax''],
      call ''fig'' [''fig'']]"

definition legends_cell10 :: "'l stmt list" where
  "legends_cell10 =
     [call ''ax.legend(fancybox=True, framealpha=1, shadow=True, borderpad=1)'' [''ax''],
      call ''fig'' [''fig'']]"

definition legends_cell13 :: "'l stmt list" where
  "legends_cell13 =
     [assign [''y''] ''np.sin(x[:, np.newaxis] + np.pi * np.arange(0, 2, 0.5))'' [''np'', ''x''],
      assign [''lines''] ''plt.plot(x, y)'' [''plt'', ''x'', ''y''],
      call ''plt.legend(lines[:2], [first, second])'' [''plt'', ''lines'']]"

definition legends_cell15 :: "'l stmt list" where
  "legends_cell15 =
     [call ''plt.plot(x, y[:, 0], label=first)'' [''plt'', ''x'', ''y''],
      call ''plt.plot(x, y[:, 1], label=second)'' [''plt'', ''x'', ''y''],
      call ''plt.plot(x, y[:, 2:])'' [''plt'', ''x'', ''y''],
      call ''plt.legend(framealpha=1, frameon=True)'' [''plt'']]"

definition legends_cell18 :: "'l stmt list" where
  "legends_cell18 =
     [assign [''pd''] ''import pandas'' [],
      assign [''cities''] ''pd.read_csv(data/california_cities.csv)'' [''pd''],
      assign [''lat'', ''lon''] ''cities[latd], cities[longd]'' [''cities''],
      assign [''population'', ''area''] ''cities[population_total], cities[area_total_km2]''
        [''cities''],
      call
        ''plt.scatter(lon, lat, label=None, c=np.log10(population), cmap=viridis, s=area, linewidth=0, alpha=0.5)''
        [''plt'', ''lon'', ''lat'', ''np'', ''population'', ''area''],
      call ''plt.axis(equal)'' [''plt''],
      call ''plt.xlabel(longitude)'' [''plt''],
      call ''plt.ylabel(latitude)'' [''plt''],
      call ''plt.colorbar(label=log$_{10}$(population))'' [''plt''],
      call ''plt.clim(3, 7)'' [''plt'']] @
     for_each [100, 300, 500]
        (\<lambda>area. [define_name ''area'' (IntVal area),
           call ''plt.scatter([], [], c=k, alpha=0.3, s=area, label=str(area) + km$^2$)''
             [''plt'', ''area'']]) @
     [call ''plt.legend(scatterpoints=1, frameon=False, labelspacing=1, title=City Area)''
        [''plt''],
      call ''plt.title(California Cities: Area and Population)'' [''plt'']]"

definition legends_cell21 :: "'l stmt list" where
  "legends_cell21 =
     [assign [''fig'', ''ax''] ''plt.subplots()'' [''plt''],
      define_name ''lines'' (Lib ''[]''),
      define_name ''styles'' (Lib ''[-, --, -., :]''),
      assign [''x''] ''np.linspace(0, 10, 1000)'' [''np'']] @
     for_each [0, 1, 2, 3]
        (\<lambda>i. [define_name ''i'' (IntVal i),
           assign [''lines'']
             ''lines += ax.plot(x, np.sin(x - i * np.pi / 2), styles[i], color=black)''
             [''lines'', ''ax'', ''x'', ''np'', ''i'', ''styles'']]) @
     [call ''ax.axis(equal)'' [''ax''],
      call ''ax.legend(lines[:2], [line A, line B], loc=upper right, frameon=False)''
        [''ax'', ''lines''],
      assign [''Legend''] ''from matplotlib.legend import Legend'' [],
      assign [''leg''] ''Legend(ax, lines[2:], [line C, line D], loc=lower right, frameon=False)''
        [''Legend'', ''ax'', ''lines''],
      call ''ax.add_artist(leg)'' [''ax'', ''leg'']]"

definition legends_notebook :: "'l stmt list list" where
  "legends_notebook =
     [legends_cell2,
      legends_cell3,
      legends_cell4,
      legends_cell6,
      legends_cell8,
      legends_cell10,
      legends_cell13,
      legends_cell15,
      legends_cell18,
      legends_cell21]"

subsection \<open>04.07-Customizing-Colorbars.ipynb\<close>

definition colorbars_cell2 :: "'l stmt list" where
  "colorbars_cell2 =
     [assign [''plt''] ''import matplotlib.pyplot'' [],
      call ''plt.style.use(classic)'' [''plt'']]"

definition colorbars_cell3 :: "'l stmt list" where
  "colorbars_cell3 =
     [call ''%matplotlib inline'' [],
      assign [''np''] ''import numpy'' []]"

definition colorbars_cell5 :: "'l stmt list" where
  "colorbars_cell5 =
     [compute [''x''] [''np''] (\<lambda>args. Inr [Arr1 (linspace 0 10 1000)]),
      compute [''I''] [''np'', ''x'']
        (\<lambda>args. case args of [_, Arr1 x] \<Rightarrow> Inr [Arr2 (sin_cos_image x)] | _ \<Rightarrow> Inl TypeError),
      call ''plt.imshow(I)'' [''plt'', ''I''],
      call ''plt.colorbar()'' [''plt'']]"

definition colorbars_cell8 :: "'l stmt list" where
  "colorbars_cell8 =
     [call ''plt.imshow(I, cmap=gray)'' [''plt'', ''I'']]"

definition colorbars_cell11 :: "'l stmt list" where
  "colorbars_cell11 =
     [assign [''LinearSegmentedColormap''] ''from matplotlib.colors import LinearSegmentedColormap''
        [],
      define_name ''grayscale_cmap'' (Lib ''def grayscale_cmap(cmap)''),
      define_name ''view_colormap'' (Lib ''def view_colormap(cmap)'')]"

definition colorbars_cell12 :: "'l stmt list" where
  "colorbars_cell12 =
     [call ''view_colormap(jet)''
        [''view_colormap'', ''plt'', ''np'', ''grayscale_cmap'', ''LinearSegmentedColormap'']]"

definition colorbars_cell14 :: "'l stmt list" where
  "colorbars_cell14 =
     [call ''view_colormap(viridis)''
        [''view_colormap'', ''plt'', ''np'', ''grayscale_cmap'', ''LinearSegmentedColormap'']]"

definition colorbars_cell16 :: "'l stmt list" where
  "colorbars_cell16 =
     [call ''view_colormap(cubehelix)''
        [''view_colormap'', ''plt'', ''np'', ''grayscale_cmap'', ''LinearSegmentedColormap'']]"

definition colorbars_cell18 :: "'l stmt list" where
  "colorbars_cell18 =
     [call ''view_colormap(RdBu)''
        [''view_colormap'', ''plt'', ''np'', ''grayscale_cmap'', ''LinearSegmentedColormap'']]"

definition colorbars_cell21 :: "'l stmt list" where
  "colorbars_cell21 =
     [assign [''speckles''] ''(np.random.random(I.shape) < 0.01)'' [''np'', ''I''],
      setitem_masked ''I'' ''speckles'' ''np.random.normal(0, 3, np.count_nonzero(speckles))''
        [''np'', ''speckles''],
      call ''plt.figure(figsize=(10, 3.5))'' [''plt''],
      call ''plt.subplot(1, 2, 1)'' [''plt''],
      call ''plt.imshow(I, cmap=RdBu)'' [''plt'', ''I''],
      call ''plt.colorbar()'' [''plt''],
      call ''plt.subplot(1, 2, 2)'' [''plt''],
      call ''plt.imshow(I, cmap=RdBu)'' [''plt'', ''I''],
      call ''plt.colorbar(extend=both)'' [''plt''],
      call ''plt.clim(-1, 1)'' [''plt'']]"

definition colorbars_cell24 :: "'l stmt list" where
  "colorbars_cell24 =
     [call ''plt.imshow(I, cmap=plt.cm.get_cmap(Blues, 6))'' [''plt'', ''I''],
      call ''plt.colorbar()'' [''plt''],
      call ''plt.clim(-1, 1)'' [''plt'']]"

definition colorbars_cell27 :: "'l stmt list" where
  "colorbars_cell27 =
     [assign [''load_digits''] ''from sklearn.datasets import load_digits'' [],
      assign [''digits''] ''load_digits(n_class=6)'' [''load_digits''],
      assign [''fig'', ''ax''] ''plt.subplots(8, 8, figsize=(6, 6))'' [''plt'']] @
     for_each [0..<64]
        (\<lambda>i. [define_name ''i'' (IntVal (int i)),
           assign [''axi''] ''ax.flat[i]'' [''ax'', ''i''],
           call ''axi.imshow(digits.images[i], cmap=binary)'' [''axi'', ''digits'', ''i''],
           call ''axi.set(xticks=[], yticks=[])'' [''axi'']])"

definition colorbars_cell29 :: "'l stmt list" where
  "colorbars_cell29 =
     [assign [''Isomap''] ''from sklearn.manifold import Isomap'' [],
      assign [''iso''] ''Isomap(n_components=2)'' [''Isomap''],
      assign [''projection''] ''iso.fit_transform(digits.data)'' [''iso'', ''digits'']]"

definition colorbars_cell31 :: "'l stmt list" where
  "colorbars_cell31 =
     [call
        ''plt.scatter(projection[:, 0], projection[:, 1], lw=0.1, c=digits.target, cmap=plt.cm.get_cmap(cubehelix, 6))''
        [''plt'', ''projection'', ''digits''],
      call ''plt.colorbar(ticks=range(6), label=digit value)'' [''plt''],
      call ''plt.clim(-0.5, 5.5)'' [''plt'']]"

definition colorbars_notebook :: "'l stmt list list" where
  "colorbars_notebook =
     [colorbars_cell2,
      colorbars_cell3,
      colorbars_cell5,
      colorbars_cell8,
      colorbars_cell11,
      colorbars_cell12,
      colorbars_cell14,
      colorbars_cell16,
      colorbars_cell18,
      colorbars_cell21,
      colorbars_cell24,
      colorbars_cell27,
      colorbars_cell29,
      colorbars_cell31]"

subsection \<open>unnamed/part_000 (first notebook)\<close>

definition subplots_cell2 :: "'l stmt list" where
  "subplots_cell2 =
     [call ''%matplotlib inline'' [],
      assign [''plt''] ''import matplotlib.pyplot'' [],
      call ''plt.style.use(seaborn-white)'' [''plt''],
      assign [''np''] ''import numpy'' []]"

definition subplots_cell4 :: "'l stmt list" where
  "subplots_cell4 =
     [assign [''ax1''] ''plt.axes()'' [''plt''],
      assign [''ax2''] ''plt.axes([0.65, 0.65, 0.2, 0.2])'' [''plt'']]"

definition subplots_cell6 :: "'l stmt list" where
  "subplots_cell6 =
     [assign [''fig''] ''plt.figure()'' [''plt''],
      assign [''ax1''] ''fig.add_axes([0.1, 0.5, 0.8, 0.4], xticklabels=[], ylim=(-1.2, 1.2))''
        [''fig''],
      assign [''ax2''] ''fig.add_axes([0.1, 0.1, 0.8, 0.4], ylim=(-1.2, 1.2))'' [''fig''],
      assign [''x''] ''np.linspace(0, 10)'' [''np''],
      call ''ax1.plot(np.sin(x))'' [''ax1'', ''np'', ''x''],
      call ''ax2.plot(np.cos(x))'' [''ax2'', ''np'', ''x'']]"

definition subplots_cell9 :: "'l stmt list" where
  "subplots_cell9 =
     for_each [1, 2, 3, 4, 5, 6]
        (\<lambda>i. [define_name ''i'' (IntVal i),
           call ''plt.subplot(2, 3, i)'' [''plt'', ''i''],
           call ''plt.text(0.5, 0.5, str((2, 3, i)), fontsize=18, ha=center)'' [''plt'', ''i'']])"

definition subplots_cell11 :: "'l stmt list" where
  "subplots_cell11 =
     [assign [''fig''] ''plt.figure()'' [''plt''],
      call ''fig.subplots_adjust(hspace=0.4, wspace=0.4)'' [''fig'']] @
     for_each [1, 2, 3, 4, 5, 6]
        (\<lambda>i. [define_name ''i'' (IntVal i),
           assign [''ax''] ''fig.add_subplot(2, 3, i)'' [''fig'', ''i''],
           call ''ax.text(0.5, 0.5, str((2, 3, i)), fontsize=18, ha=center)'' [''ax'', ''i'']])"

definition subplots_cell14 :: "'l stmt list" where
  "subplots_cell14 =
     [assign [''fig'', ''ax''] ''plt.subplots(2, 3, sharex=col, sharey=row)'' [''plt'']]"

definition subplots_cell16 :: "'l stmt list" where
  "subplots_cell16 =
     for_each [0, 1]
        (\<lambda>i. define_name ''i'' (IntVal i) #
           for_each [0, 1, 2]
             (\<lambda>j. [define_name ''j'' (IntVal j),
                call ''ax[i, j].text(0.5, 0.5, str((i, j)), fontsize=18, ha=center)''
                  [''ax'', ''i'', ''j'']])) @
     [call ''fig'' [''fig'']]"

definition subplots_cell19 :: "'l stmt list" where
  "subplots_cell19 =
     [assign [''grid''] ''plt.GridSpec(2, 3, wspace=0.4, hspace=0.3)'' [''plt'']]"

definition subplots_cell21 :: "'l stmt list" where
  "subplots_cell21 =
     [call ''plt.subplot(grid[0, 0])'' [''plt'', ''grid''],
      call ''plt.subplot(grid[0, 1:])'' [''plt'', ''grid''],
      call ''plt.subplot(grid[1, :2])'' [''plt'', ''grid''],
      call ''plt.subplot(grid[1, 2])'' [''plt'', ''grid'']]"

definition subplots_cell23 :: "'l stmt list" where
  "subplots_cell23 =
     [define_name ''mean'' (Lib ''[0, 0]''),
      define_name ''cov'' (Lib ''[[1, 1], [1, 2]]''),
      assign [''x'', ''y''] ''np.random.multivariate_normal(mean, cov, 3000).T''
        [''np'', ''mean'', ''cov''],
      assign [''fig''] ''plt.figure(figsize=(6, 6))'' [''plt''],
      assign [''grid''] ''plt.GridSpec(4, 4, hspace=0.2, wspace=0.2)'' [''plt''],
      assign [''main_ax''] ''fig.add_subplot(grid[:-1, 1:])'' [''fig'', ''grid''],
      assign [''y_hist''] ''fig.add_subplot(grid[:-1, 0], xticklabels=[], sharey=main_ax)''
        [''fig'', ''grid'', ''main_ax''],
      assign [''x_hist''] ''fig.add_subplot(grid[-1, 1:], yticklabels=[], sharex=main_ax)''
        [''fig'', ''grid'', ''main_ax''],
      call ''main_ax.plot(x, y, ok, markersize=3, alpha=0.2)'' [''main_ax'', ''x'', ''y''],
      call ''x_hist.hist(x, 40, histtype=stepfilled, orientation=vertical, color=gray)''
        [''x_hist'', ''x''],
      call ''x_hist.invert_yaxis()'' [''x_hist''],
      call ''y_hist.hist(y, 40, histtype=stepfilled, orientation=horizontal, color=gray)''
        [''y_hist'', ''y''],
      call ''y_hist.invert_xaxis()'' [''y_hist'']]"

definition subplots_notebook :: "'l stmt list list" where
  "subplots_notebook =
     [subplots_cell2,
      subplots_cell4,
      subplots_cell6,
      subplots_cell9,
      subplots_cell11,
      subplots_cell14,
      subplots_cell16,
      subplots_cell19,
      subplots_cell21,
      subplots_cell23]"

subsection \<open>unnamed/part_000 (second notebook)\<close>

definition text_cell2 :: "'l stmt list" where
  "text_cell2 =
     [call ''%matplotlib inline'' [],
      assign [''plt''] ''import matplotlib.pyplot'' [],
      assign [''mpl''] ''import matplotlib'' [],
      call ''plt.style.use(seaborn-whitegrid)'' [''plt''],
      assign [''np''] ''import numpy'' [],
      assign [''pd''] ''import pandas'' []]"

definition text_cell4 :: "'l stmt list" where
  "text_cell4 =
     [assign [''births''] ''pd.read_csv(data/births.csv)'' [''pd''],
      assign [''quartiles''] ''np.percentile(births[births], [25, 50, 75])''
        [''np'', ''births''],
      assign [''mu'', ''sig''] ''quartiles[1], 0.74 * (quartiles[2] - quartiles[0])''
        [''quartiles''],
      assign [''births''] ''births.query((births > @mu - 5 * @sig) & (births < @mu + 5 * @sig))''
        [''births'', ''mu'', ''sig''],
      call ''births[day] = births[day].astype(int)'' [''births''],
      call
        ''births.index = pd.to_datetime(10000 * births.year + 100 * births.month + births.day, format=%Y%m%d)''
        [''births'', ''pd''],
      assign [''births_by_date'']
        ''births.pivot_table(births, [births.index.month, births.index.day])''
        [''births''],
      call
        ''births_by_date.index = [pd.datetime(2012, month, day) for (month, day) in births_by_date.index]''
        [''births_by_date'', ''pd'']]"

definition text_cell5 :: "'l stmt list" where
  "text_cell5 =
     [assign [''fig'', ''ax''] ''plt.subplots(figsize=(12, 4))'' [''plt''],
      call ''births_by_date.plot(ax=ax)'' [''births_by_date'', ''ax'']]"

definition text_cell7 :: "'l stmt list" where
  "text_cell7 =
     [assign [''fig'', ''ax''] ''plt.subplots(figsize=(12, 4))'' [''plt''],
      call ''births_by_date.plot(ax=ax)'' [''births_by_date'', ''ax''],
      define_name ''style'' (Lib ''dict(size=10, color=gray)''),
      call ''ax.text(2012-1-1, 3950, New Years Day, **style)'' [''ax'', ''style''],
      call ''ax.text(2012-7-4, 4250, Independence Day, ha=center, **style)'' [''ax'', ''style''],
      call ''ax.text(2012-9-4, 4850, Labor Day, ha=center, **style)'' [''ax'', ''style''],
      call ''ax.text(2012-10-31, 4600, Halloween, ha=right, **style)'' [''ax'', ''style''],
      call ''ax.text(2012-11-25, 4450, Thanksgiving, ha=center, **style)'' [''ax'', ''style''],
      call ''ax.text(2012-12-25, 3850, Christmas , ha=right, **style)'' [''ax'', ''style''],
      call ''ax.set(title=USA births by day of year (1969-1988), ylabel=average daily births)''
        [''ax''],
      call ''ax.xaxis.set_major_locator(mpl.dates.MonthLocator())'' [''ax'', ''mpl''],
      call ''ax.xaxis.set_minor_locator(mpl.dates.MonthLocator(bymonthday=15))''
        [''ax'', ''mpl''],
      call ''ax.xaxis.set_major_formatter(plt.NullFormatter())'' [''ax'', ''plt''],
      call ''ax.xaxis.set_minor_formatter(mpl.dates.DateFormatter(%h))'' [''ax'', ''mpl'']]"

definition text_cell10 :: "'l stmt list" where
  "text_cell10 =
     [assign [''fig'', ''ax''] ''plt.subplots(facecolor=lightgray)'' [''plt''],
      call ''ax.axis([0, 10, 0, 10])'' [''ax''],
      call ''ax.text(1, 5, . Data: (1, 5), transform=ax.transData)'' [''ax''],
      call ''ax.text(0.5, 0.1, . Axes: (0.5, 0.1), transform=ax.transAxes)'' [''ax''],
      call ''ax.text(0.2, 0.2, . Figure: (0.2, 0.2), transform=fig.transFigure)''
        [''ax'', ''fig'']]"

definition text_cell12 :: "'l stmt list" where
  "text_cell12 =
     [call ''ax.set_xlim(0, 2)'' [''ax''],
      call ''ax.set_ylim(-6, 6)'' [''ax''],
      call ''fig'' [''fig'']]"

definition text_cell15 :: "'l stmt list" where
  "text_cell15 =
     [call ''%matplotlib inline'' [],
      assign [''fig'', ''ax''] ''plt.subplots()'' [''plt''],
      assign [''x''] ''np.linspace(0, 20, 1000)'' [''np''],
      call ''ax.plot(x, np.cos(x))'' [''ax'', ''x'', ''np''],
      call ''ax.axis(equal)'' [''ax''],
      call
        ''ax.annotate(local maximum, xy=(6.28, 1), xytext=(10, 4), arrowprops=dict(facecolor=black, shrink=0.05))''
        [''ax''],
      call
        ''ax.annotate(local minimum, xy=(5 * np.pi, -1), xytext=(2, -6), arrowprops=dict(arrowstyle=->, connectionstyle=angle3,angleA=0,angleB=-90))''
        [''ax'', ''np'']]"

definition text_cell17 :: "'l stmt list" where
  "text_cell17 =
     [assign [''fig'', ''ax''] ''plt.subplots(figsize=(12, 4))'' [''plt''],
      call ''births_by_date.plot(ax=ax)'' [''births_by_date'', ''ax''],
      call
        ''ax.annotate(New Years Day, xy=(2012-1-1, 4100), xycoords=data, xytext=(50, -30), textcoords=offset points, arrowprops=dict(arrowstyle=->, connectionstyle=arc3,rad=-0.2))''
        [''ax''],
      call
        ''ax.annotate(Independence Day, xy=(2012-7-4, 4250), xycoords=data, bbox=dict(boxstyle=round, fc=none, ec=gray), xytext=(10, -40), textcoords=offset points, ha=center, arrowprops=dict(arrowstyle=->))''
        [''ax''],
      call
        ''ax.annotate(Labor Day, xy=(2012-9-4, 4850), xycoords=data, ha=center, xytext=(0, -20), textcoords=offset points)''
        [''ax''],
      call
        ''ax.annotate(, xy=(2012-9-1, 4850), xytext=(2012-9-7, 4850), xycoords=data, textcoords=data, arrowprops={arrowstyle: |-|,widthA=0.2,widthB=0.2, })''
        [''ax''],
      call
        ''ax.annotate(Halloween, xy=(2012-10-31, 4600), xycoords=data, xytext=(-80, -40), textcoords=offset points, arrowprops=dict(arrowstyle=fancy, fc=0.6, ec=none, connectionstyle=angle3,angleA=0,angleB=-90))''
        [''ax''],
      call
        ''ax.annotate(Thanksgiving, xy=(2012-11-25, 4500), xycoords=data, xytext=(-120, -60), textcoords=offset points, bbox=dict(boxstyle=round4,pad=.5, fc=0.9), arrowprops=dict(arrowstyle=->, connectionstyle=angle,angleA=0,angleB=80,rad=20))''
        [''ax''],
      call
        ''ax.annotate(Christmas, xy=(2012-12-25, 3850), xycoords=data, xytext=(-30, 0), textcoords=offset points, size=13, ha=right, va=center, bbox=dict(boxstyle=round, alpha=0.1), arrowprops=dict(arrowstyle=wedge,tail_width=0.5, alpha=0.1))''
        [''ax''],
      call ''ax.set(title=USA births by day of year (1969-1988), ylabel=average daily births)''
        [''ax''],
      call ''ax.xaxis.set_major_locator(mpl.dates.MonthLocator())'' [''ax'', ''mpl''],
      call ''ax.xaxis.set_minor_locator(mpl.dates.MonthLocator(bymonthday=15))''
        [''ax'', ''mpl''],
      call ''ax.xaxis.set_major_formatter(plt.NullFormatter())'' [''ax'', ''plt''],
      call ''ax.xaxis.set_minor_formatter(mpl.dates.DateFormatter(%h))'' [''ax'', ''mpl''],
      call ''ax.set_ylim(3600, 5400)'' [''ax'']]"

definition text_notebook :: "'l stmt list list" where
  "text_notebook =
     [text_cell2,
      text_cell4,
      text_cell5,
      text_cell7,
      text_cell10,
      text_cell12,
      text_cell15,
      text_cell17]"

subsection \<open>unnamed/part_001\<close>

definition errorbars_cell3 :: "'l stmt list" where
  "errorbars_cell3 =
     [call ''%matplotlib inline'' [],
      assign [''plt''] ''import matplotlib.pyplot'' [],
      call ''plt.style.use(seaborn-whitegrid)'' [''plt''],
      assign [''np''] ''import numpy'' []]"

definition errorbars_cell4 :: "'l stmt list" where
  "errorbars_cell4 =
     [assign [''x''] ''np.linspace(0, 10, 50)'' [''np''],
      define_name ''dy'' (Lib ''0.8''),
      assign [''y''] ''np.sin(x) + dy * np.random.randn(50)'' [''np'', ''x'', ''dy''],
      call ''plt.errorbar(x, y, yerr=dy, fmt=.k)'' [''plt'', ''x'', ''y'', ''dy'']]"

definition errorbars_cell6 :: "'l stmt list" where
  "errorbars_cell6 =
     [call
        ''plt.errorbar(x, y, yerr=dy, fmt=o, color=black, ecolor=lightgray, elinewidth=3, capsize=0)''
        [''plt'', ''x'', ''y'', ''dy'']]"

definition errorbars_cell9 :: "'l stmt list" where
  "errorbars_cell9 =
     [assign [''GaussianProcessRegressor'']
        ''from sklearn.gaussian_process import GaussianProcessRegressor''
        [],
      define_name ''model'' (Lib ''lambda x: x * np.sin(x)''),
      assign [''xdata''] ''np.array([1, 3, 5, 6, 8])'' [''np''],
      assign [''ydata''] ''model(xdata)'' [''model'', ''xdata'', ''np''],
      assign [''gp''] ''GaussianProcessRegressor(alpha=0, optimizer=None, normalize_y=True)''
        [''GaussianProcessRegressor''],
      call ''gp.fit(xdata[:, np.newaxis], ydata)'' [''gp'', ''xdata'', ''np'', ''ydata''],
      assign [''xfit''] ''np.linspace(0, 10, 1000)'' [''np''],
      assign [''yfit'', ''MSE''] ''gp.predict(xfit[:, np.newaxis], return_std=True)''
        [''gp'', ''xfit'', ''np''],
      assign [''dyfit''] ''2 * np.sqrt(MSE)'' [''np'', ''MSE'']]"

definition errorbars_cell11 :: "'l stmt list" where
  "errorbars_cell11 =
     [call ''plt.plot(xdata, ydata, or)'' [''plt'', ''xdata'', ''ydata''],
      call ''plt.plot(xfit, yfit, -, color=gray)'' [''plt'', ''xfit'', ''yfit''],
      call ''plt.fill_between(xfit, yfit - dyfit, yfit + dyfit, color=gray, alpha=0.2)''
        [''plt'', ''xfit'', ''yfit'', ''dyfit''],
      call ''plt.xlim(0, 10)'' [''plt'']]"

definition errorbars_notebook :: "'l stmt list list" where
  "errorbars_notebook =
     [errorbars_cell3,
      errorbars_cell4,
      errorbars_cell6,
      errorbars_cell9,
      errorbars_cell11]"

subsection \<open>All cells\<close>

definition all_notebooks :: "'l stmt list list list" where
  "all_notebooks =
     [intro_notebook, scatter_notebook, contour_notebook, hist_notebook, legends_notebook,
      colorbars_notebook, subplots_notebook, text_notebook, errorbars_notebook]"

definition all_cells :: "'l stmt list list" where
  "all_cells = concat all_notebooks"

text \<open>Every cell except the noise cell of the colorbar notebook.\<close>

definition other_cells :: "'l stmt list list" where
  "other_cells =
     [intro_cell4, intro_cell7, intro_cell14, intro_cell16, intro_cell18, intro_cell20,
      intro_cell22, intro_cell24, intro_cell28, intro_cell31, scatter_cell2, scatter_cell4,
      scatter_cell6, scatter_cell8, scatter_cell10, scatter_cell13, scatter_cell15,
      scatter_cell17, scatter_cell18, contour_cell2, contour_cell5, contour_cell7,
      contour_cell9, contour_cell11, contour_cell13, contour_cell15, contour_cell18,
      hist_cell2, hist_cell3, hist_cell5, hist_cell7, hist_cell9, hist_cell11, hist_cell13,
      hist_cell15, hist_cell18, hist_cell21, legends_cell2, legends_cell3, legends_cell4,
      legends_cell6, legends_cell8, legends_cell10, legends_cell13, legends_cell15,
      legends_cell18, legends_cell21, colorbars_cell2, colorbars_cell3, colorbars_cell5,
      colorbars_cell8, colorbars_cell11, colorbars_cell12, colorbars_cell14,
      colorbars_cell16, colorbars_cell18, colorbars_cell24, colorbars_cell27,
      colorbars_cell29, colorbars_cell31, subplots_cell2, subplots_cell4, subplots_cell6,
      subplots_cell9, subplots_cell11, subplots_cell14, subplots_cell16, subplots_cell19,
      subplots_cell21, subplots_cell23, text_cell2, text_cell4, text_cell5, text_cell7,
      text_cell10, text_cell12, text_cell15, text_cell17, errorbars_cell3, errorbars_cell4,
      errorbars_cell6, errorbars_cell9, errorbars_cell11]"

section \<open>Sample worlds and states\<close>

text \<open>
  The random arrays of the scatter cell as a function of the seeded generator alone.
\<close>

definition seeded_draws :: "'l world \<Rightarrow> array1 \<times> array1 \<times> array1 \<times> array1" where
  "seeded_draws w =
     (case rs_randn w (rs_seed w 0) 100 of (x, g1) \<Rightarrow>
      case rs_randn w g1 100 of (y, g2) \<Rightarrow>
      case rs_rand w g2 100 of (colors, g3) \<Rightarrow>
      case rs_rand w g3 100 of (sizes, g4) \<Rightarrow>
        (x, y, colors, map (\<lambda>v. 1000 * v) sizes))"

text \<open>
  A stand-in for the libraries, to run cells on concrete states: the libraries' own
  state is a counter of the calls made; a call returns one object tagged with its label,
  except the call \<open>bad\<close>, which raises \<open>err\<close>; a generator's state is a counter, and a
  draw of \<open>n\<close> values returns \<open>n\<close> copies of it.
\<close>

definition counter_draw :: "rng \<Rightarrow> nat \<Rightarrow> array1 \<times> rng" where
  "counter_draw g n = (replicate n (real (sum_list g)), [Suc (sum_list g)])"

definition failing_world :: "string \<Rightarrow> error \<Rightarrow> nat world" where
  "failing_world bad err =
     \<lparr>lib_call = (\<lambda>label args l. (if label = bad then Inl err else Inr [Lib label], Suc l)),
      rs_seed = (\<lambda>seed. [nat seed]),
      rs_randn = counter_draw,
      rs_rand = counter_draw\<rparr>"

definition empty_kernel :: "nat kernel" where
  "empty_kernel = \<lparr>names = Map.empty, heap = Map.empty, fresh = 0, lib = 0\<rparr>"

text \<open>
  A state is well formed when every address in use is below \<open>fresh\<close>: a new object
  never takes the place of an old one.
\<close>

definition wf_kernel :: "'l kernel \<Rightarrow> bool" where
  "wf_kernel s \<longleftrightarrow>
     (\<forall>n a. names s n = Some a \<longrightarrow> a < fresh s) \<and> (\<forall>a v. heap s a = Some v \<longrightarrow> a < fresh s)"

text \<open>A statement that leaves the names and the objects as they are.\<close>

definition keeps_store :: "'l stmt \<Rightarrow> bool" where
  "keeps_store st \<longleftrightarrow>
     (\<forall>w s. names (fst (st w s)) = names s \<and> heap (fst (st w s)) = heap s \<and>
            fresh (fst (st w s)) = fresh s)"





text \<open>
  The colorbar notebook run from an empty kernel through its import cells and the cell
  that binds the image \<open>I\<close>, with libraries whose uniform draw makes exactly the first
  pixel a speckle (a mask of the image's shape that is true at position (0, 0) only) and
  whose normal draw for that one speckle is 3.
\<close>

definition one_speckle :: "array2 \<Rightarrow> bool list list" where
  "one_speckle A =
     (case A of
        [] \<Rightarrow> []
      | row # rows \<Rightarrow>
          (case row of [] \<Rightarrow> [] | _ # r \<Rightarrow> True # map (\<lambda>_. False) r) #
          map (map (\<lambda>_. False)) rows)"

definition speckle_world :: "nat world" where
  "speckle_world =
     \<lparr>lib_call = (\<lambda>label args l.
        (if label = ''(np.random.random(I.shape) < 0.01)''
         then (case args of [_, Arr2 A] \<Rightarrow> Inr [Mask2 (one_speckle A)] | _ \<Rightarrow> Inl TypeError)
         else if label = ''np.random.normal(0, 3, np.count_nonzero(speckles))''
         then Inr [Arr1 [3]]
         else Inr [Lib label], Suc l)),
      rs_seed = (\<lambda>seed. [nat seed]),
      rs_randn = counter_draw,
      rs_rand = counter_draw\<rparr>"

definition colorbars_before :: "nat kernel" where
  "colorbars_before =
     fst (run_cell colorbars_cell5 speckle_world
       (fst (run_cell colorbars_cell3 speckle_world
         (fst (run_cell colorbars_cell2 speckle_world empty_kernel)))))"

text \<open>
  The arrays among the objects, and what it means that a step keeps them: the state it
  leaves is well formed, no address is given up, and every array of the state before
  is still there with the same contents.
\<close>

fun is_array :: "obj \<Rightarrow> bool" where
  "is_array (Arr1 a) = True"
| "is_array (Arr2 A) = True"
| "is_array (Mask2 M) = True"
| "is_array _ = False"

definition arrays_kept :: "'l kernel \<Rightarrow> 'l kernel \<Rightarrow> bool" where
  "arrays_kept s s' \<longleftrightarrow>
     wf_kernel s' \<and> fresh s \<le> fresh s' \<and>
     (\<forall>a v. heap s a = Some v \<longrightarrow> is_array v \<longrightarrow> heap s' a = Some v)"

definition keeps_arrays :: "'l stmt \<Rightarrow> bool" where
  "keeps_arrays st \<longleftrightarrow> (\<forall>w s. wf_kernel s \<longrightarrow> arrays_kept s (fst (st w s)))"





text \<open>
  The marker cell of the scatter notebook draws inside its loop. \<open>marker_gen w k\<close> is the
  state of the generator seeded with 0 after \<open>k\<close> passes of the loop (two draws of five
  values each), and \<open>marker_draws w k\<close> the two arrays drawn in pass \<open>k\<close>: functions of
  the seeded generator alone. \<open>call_on v1 v2\<close> is the library call of the pass once its
  two arrays are drawn.
\<close>

fun marker_gen :: "'l world \<Rightarrow> nat \<Rightarrow> rng" where
  "marker_gen w 0 = rs_seed w 0"
| "marker_gen w (Suc k) = snd (rs_rand w (snd (rs_rand w (marker_gen w k) 5)) 5)"

definition marker_draws :: "'l world \<Rightarrow> nat \<Rightarrow> array1 \<times> array1" where
  "marker_draws w k =
     (fst (rs_rand w (marker_gen w k) 5),
      fst (rs_rand w (snd (rs_rand w (marker_gen w k) 5)) 5))"

definition call_on :: "array1 \<Rightarrow> array1 \<Rightarrow> string \<Rightarrow> string list \<Rightarrow> 'l stmt" where
  "call_on v1 v2 label reads w s =
     (case lookup_all s reads of
        Inl e \<Rightarrow> (s, Some e)
      | Inr args \<Rightarrow>
          (case lib_call w label (Arr1 v1 # Arr1 v2 # args) (lib s) of
             (Inl e, l) \<Rightarrow> (s\<lparr>lib := l\<rparr>, Some e)
           | (Inr vals, l) \<Rightarrow> (s\<lparr>lib := l\<rparr>, None)))"

section \<open>Properties\<close>

text \<open>
  C7: the two stacked panels are exactly adjacent (the bottom of the upper one is
  the top of the lower one, 0.1 + 0.4 = 0.5), and each literal rectangle lies inside
  the unit figure square.
\<close>

theorem stacked_axes_adjacent_in_unit_square:
  "bottom upper_rect = bottom lower_rect + height lower_rect \<and>
   bottom upper_rect = top_edge lower_rect \<and>
   left upper_rect = left lower_rect \<and> width upper_rect = width lower_rect \<and>
   in_unit_square upper_rect \<and> in_unit_square lower_rect \<and> in_unit_square inset_rect"
  by (simp add: upper_rect_def lower_rect_def inset_rect_def mk_rect_def top_edge_def right_edge_def
      in_unit_square_def)

lemma length_linspace: "length (linspace a b n) = n"
  by (simp add: linspace_def)

lemma meshgrid_shape:
  "meshgrid x y = (X, Y) \<Longrightarrow> has_shape X (length y) (length x) \<and> has_shape Y (length y) (length x)"
  by (auto simp: meshgrid_def has_shape_def list_all_iff)

lemma meshgrid_nth:
  "meshgrid x y = (X, Y) \<Longrightarrow> i < length y \<Longrightarrow> j < length x \<Longrightarrow> X ! i ! j = x ! j \<and> Y ! i ! j = y ! i"
  by (auto simp: meshgrid_def)

lemma f_meshgrid_nth:
  assumes "meshgrid x y = (X, Y)" "i < length y" "j < length x"
  shows "f X Y ! i ! j = sin (x ! j) ^ 10 + cos (10 + y ! i * x ! j) * cos (x ! j)"
  using assms
  by (auto simp: meshgrid_def f_def arr_add_def arr_mul_def arr_pow_def np_sin_def np_cos_def
      scalar_add_def)

text \<open>
  C5: for \<open>x\<close> of length 50 and \<open>y\<close> of length 40, \<open>X\<close> and \<open>Y\<close> have shape (40, 50)
  with \<open>X[i][j] = x[j]\<close> and \<open>Y[i][j] = y[i]\<close>, and \<open>Z = f(X, Y)\<close> has the same shape
  with \<open>Z[i][j] = sin(x[j])^10 + cos(10 + y[i]*x[j]) * cos(x[j])\<close> at every position.
\<close>

theorem contour_grid_values:
  assumes "length x = 50" and "length y = 40" and "contour_grid x y = (X, Y, Z)"
    and "i < 40" and "j < 50"
  shows "has_shape X 40 50 \<and> has_shape Y 40 50 \<and> has_shape Z 40 50 \<and>
         X ! i ! j = x ! j \<and> Y ! i ! j = y ! i \<and>
         Z ! i ! j = sin (x ! j) ^ 10 + cos (10 + y ! i * x ! j) * cos (x ! j)"
proof -
  from assms(3) have m: "meshgrid x y = (X, Y)" and z: "Z = f X Y"
    by (auto simp: contour_grid_def split: prod.splits)
  have sh: "has_shape X 40 50 \<and> has_shape Y 40 50"
    using meshgrid_shape [OF m] assms(1,2) by simp
  have zs: "has_shape Z 40 50"
    using m assms(1,2) unfolding z
    by (auto simp: meshgrid_def f_def arr_add_def arr_mul_def arr_pow_def np_sin_def np_cos_def
        scalar_add_def has_shape_def list_all_iff in_set_zip)
  have pos: "X ! i ! j = x ! j \<and> Y ! i ! j = y ! i"
    using meshgrid_nth [OF m] assms by simp
  have val: "Z ! i ! j = sin (x ! j) ^ 10 + cos (10 + y ! i * x ! j) * cos (x ! j)"
    unfolding z using f_meshgrid_nth [OF m] assms by simp
  from sh zs pos val show ?thesis by blast
qed

theorem contour_grid_values_witness:
  "length contour_x = 50 \<and> length contour_y = 40 \<and> (39::nat) < 40 \<and> (49::nat) < 50 \<and>
   (\<exists>X Y Z. contour_grid contour_x contour_y = (X, Y, Z) \<and>
      has_shape X 40 50 \<and> has_shape Y 40 50 \<and> has_shape Z 40 50 \<and>
      X ! 39 ! 49 = 5 \<and> Y ! 39 ! 49 = 5 \<and>
      Z ! 39 ! 49 = sin 5 ^ 10 + cos 35 * cos 5)"
proof -
  have lx: "length contour_x = 50" and ly: "length contour_y = 40"
    by (simp_all add: contour_x_def contour_y_def length_linspace)
  have x49: "contour_x ! 49 = 5" and y39: "contour_y ! 39 = 5"
    by (simp_all add: contour_x_def contour_y_def linspace_def)
  obtain X Y Z where g: "contour_grid contour_x contour_y = (X, Y, Z)"
    by (cases "contour_grid contour_x contour_y") auto
  have i: "(39::nat) < 40" and j: "(49::nat) < 50" by simp_all
  from contour_grid_values [OF lx ly g i j] x49 y39
  have "has_shape X 40 50 \<and> has_shape Y 40 50 \<and> has_shape Z 40 50 \<and>
      X ! 39 ! 49 = 5 \<and> Y ! 39 ! 49 = 5 \<and>
      Z ! 39 ! 49 = sin 5 ^ 10 + cos 35 * cos 5"
    by simp
  with g lx ly show ?thesis by simp
qed

subsection \<open>Percentiles\<close>

lemma lerp_eq: "lerp a b t = a + (b - a) * t"
  by (simp add: lerp_def algebra_simps)

lemma quantile_linear_interp:
  assumes "arr \<noteq> []" "0 \<le> q" "q \<le> 1"
  shows "quantile_linear arr q = interp arr (real (length arr - 1) * q)"
proof -
  define n where "n = length arr"
  define v where "v = real (n - 1) * q"
  have v0: "0 \<le> v" using assms(2) by (simp add: v_def)
  have vn: "v \<le> real (n - 1)" using assms(2,3) unfolding v_def
    by (simp add: mult_left_le)
  show ?thesis
  proof (cases "v \<ge> real (n - 1)")
    case True
    then have veq: "v = real (n - 1)" using vn by simp
    have "quantile_linear arr q = arr ! (n - 1)"
      unfolding quantile_linear_def Let_def lerp_eq n_def[symmetric] v_def[symmetric]
      using True v0 by simp
    moreover have "interp arr v = arr ! (n - 1)"
      unfolding interp_def Let_def n_def[symmetric] veq by simp
    ultimately show ?thesis unfolding v_def n_def by simp
  next
    case False
    then have lt: "v < real (n - 1)" by simp
    have fl: "nat \<lfloor>v\<rfloor> + 1 \<le> n - 1" using lt v0 by linarith
    have r: "real (nat \<lfloor>v\<rfloor>) = real_of_int \<lfloor>v\<rfloor>" using v0 by simp
    have "quantile_linear arr q =
        arr ! nat \<lfloor>v\<rfloor> + (arr ! (nat \<lfloor>v\<rfloor> + 1) - arr ! nat \<lfloor>v\<rfloor>) * (v - real_of_int \<lfloor>v\<rfloor>)"
      unfolding quantile_linear_def Let_def lerp_eq n_def[symmetric] v_def[symmetric]
      using False v0 by simp
    moreover have "interp arr v =
        arr ! nat \<lfloor>v\<rfloor> + (arr ! (nat \<lfloor>v\<rfloor> + 1) - arr ! nat \<lfloor>v\<rfloor>) * (v - real_of_int \<lfloor>v\<rfloor>)"
      unfolding interp_def Let_def n_def[symmetric] using fl r by (simp add: min_def)
    ultimately show ?thesis unfolding v_def n_def by simp
  qed
qed

lemma interp_between:
  assumes "sorted s" "0 \<le> v" "v \<le> real (length s - 1)" "s \<noteq> []"
  shows "s ! nat \<lfloor>v\<rfloor> \<le> interp s v \<and> interp s v \<le> s ! min (nat \<lfloor>v\<rfloor> + 1) (length s - 1)"
proof -
  define lo where "lo = nat \<lfloor>v\<rfloor>"
  define hi where "hi = min (lo + 1) (length s - 1)"
  define g where "g = v - real lo"
  have lo_le: "lo \<le> length s - 1"
    using assms(2,3) unfolding lo_def by (simp add: nat_le_iff floor_le_iff)
  have "lo \<le> hi" using lo_le by (simp add: hi_def)
  moreover have "hi < length s" using assms(4) by (cases s) (auto simp: hi_def)
  ultimately have le: "s ! lo \<le> s ! hi" using assms(1) by (simp add: sorted_nth_mono)
  have g0: "0 \<le> g" and g1: "g \<le> 1"
    using assms(2) unfolding g_def lo_def by linarith+
  have eq: "interp s v = s ! lo + (s ! hi - s ! lo) * g"
    by (simp add: interp_def Let_def lo_def hi_def g_def)
  have "0 \<le> (s ! hi - s ! lo) * g" using le g0 by simp
  moreover have "(s ! hi - s ! lo) * g \<le> (s ! hi - s ! lo) * 1"
    using le g1 by (intro mult_left_mono) simp_all
  ultimately show ?thesis unfolding eq lo_def[symmetric] hi_def[symmetric] by simp
qed

lemma interp_mono:
  assumes "sorted s" "0 \<le> v" "v \<le> w" "w \<le> real (length s - 1)" "s \<noteq> []"
  shows "interp s v \<le> interp s w"
proof (cases "\<lfloor>v\<rfloor> = \<lfloor>w\<rfloor>")
  case True
  define lo where "lo = nat \<lfloor>v\<rfloor>"
  define hi where "hi = min (lo + 1) (length s - 1)"
  have lo_le: "lo \<le> length s - 1"
    using assms(2,3,4) unfolding lo_def by (simp add: nat_le_iff floor_le_iff)
  have "lo \<le> hi" using lo_le by (simp add: hi_def)
  moreover have "hi < length s" using assms(5) by (cases s) (auto simp: hi_def)
  ultimately have le: "s ! lo \<le> s ! hi" using assms(1) by (simp add: sorted_nth_mono)
  have "interp s w - interp s v = (s ! hi - s ! lo) * (w - v)"
    using True by (simp add: interp_def Let_def lo_def hi_def algebra_simps)
  moreover have "0 \<le> (s ! hi - s ! lo) * (w - v)" using le assms(3) by simp
  ultimately show ?thesis by linarith
next
  case False
  have fl: "\<lfloor>v\<rfloor> < \<lfloor>w\<rfloor>" using False assms(3) floor_mono [of v w] by linarith
  have v0: "0 \<le> \<lfloor>v\<rfloor>" using assms(2) by simp
  have "interp s v \<le> s ! min (nat \<lfloor>v\<rfloor> + 1) (length s - 1)"
    using interp_between [of s v] assms by simp
  also have "\<dots> \<le> s ! nat \<lfloor>w\<rfloor>"
  proof -
    have a: "nat \<lfloor>v\<rfloor> + 1 \<le> nat \<lfloor>w\<rfloor>" using fl v0 by linarith
    have b: "nat \<lfloor>w\<rfloor> \<le> length s - 1"
      using assms(2,3,4) by (simp add: nat_le_iff floor_le_iff)
    have "nat \<lfloor>w\<rfloor> < length s" using b assms(5) by (cases s) auto
    moreover have "min (nat \<lfloor>v\<rfloor> + 1) (length s - 1) \<le> nat \<lfloor>w\<rfloor>" using a by simp
    ultimately show ?thesis using assms(1) by (simp add: sorted_nth_mono)
  qed
  also have "\<dots> \<le> interp s w"
    using interp_between [of s w] assms by simp
  finally show ?thesis .
qed

lemma quantile_linear_mono:
  assumes "sorted arr" "arr \<noteq> []" "0 \<le> p" "p \<le> q" "q \<le> 1"
  shows "quantile_linear arr p \<le> quantile_linear arr q"
proof -
  have "real (length arr - 1) * p \<le> real (length arr - 1) * q"
    using assms(4) by (simp add: mult_left_mono)
  moreover have "real (length arr - 1) * q \<le> real (length arr - 1)"
    using assms(5) by (simp add: mult_left_le)
  moreover have "0 \<le> real (length arr - 1) * p" using assms(3) by simp
  ultimately have "interp arr (real (length arr - 1) * p) \<le> interp arr (real (length arr - 1) * q)"
    using assms(1,2) by (intro interp_mono) simp_all
  then show ?thesis
    using assms by (simp add: quantile_linear_interp)
qed

lemma quantile_linear_bounds:
  assumes "sorted arr" "arr \<noteq> []" "0 \<le> q" "q \<le> 1"
  shows "Min (set arr) \<le> quantile_linear arr q \<and> quantile_linear arr q \<le> Max (set arr)"
proof -
  define v where "v = real (length arr - 1) * q"
  have v0: "0 \<le> v" using assms(3) by (simp add: v_def)
  have vn: "v \<le> real (length arr - 1)" using assms(3,4) by (simp add: v_def mult_left_le)
  have lo: "nat \<lfloor>v\<rfloor> < length arr"
  proof -
    have "nat \<lfloor>v\<rfloor> \<le> length arr - 1" using v0 vn by (simp add: nat_le_iff floor_le_iff)
    then show ?thesis using assms(2) by (cases arr) auto
  qed
  have hi: "min (nat \<lfloor>v\<rfloor> + 1) (length arr - 1) < length arr"
    using assms(2) by (cases arr) auto
  have "Min (set arr) \<le> arr ! nat \<lfloor>v\<rfloor>" using lo by simp
  moreover have "arr ! min (nat \<lfloor>v\<rfloor> + 1) (length arr - 1) \<le> Max (set arr)"
    using hi by simp
  moreover note interp_between [OF assms(1) v0 vn assms(2)]
  ultimately show ?thesis
    using assms by (simp add: quantile_linear_interp v_def)
qed

lemma percentile_pair_mono:
  assumes "vals \<noteq> []" "0 \<le> p" "p \<le> q" "q \<le> 100"
  shows "\<exists>a b. percentile vals [p, q] = Inr [a, b] \<and> a \<le> b"
proof -
  have srt: "sorted (sort vals)" by simp
  have ne: "sort vals \<noteq> []"
    using assms(1) by (metis set_sort set_empty)
  have "percentile vals [p, q]
      = Inr [quantile_linear (sort vals) (p / 100), quantile_linear (sort vals) (q / 100)]"
    using assms by (simp add: percentile_def)
  moreover have "quantile_linear (sort vals) (p / 100) \<le> quantile_linear (sort vals) (q / 100)"
    using assms by (intro quantile_linear_mono [OF srt ne]) simp_all
  ultimately show ?thesis by blast
qed

text \<open>
  C6: on non-empty data the three quartiles exist and satisfy
  \<open>min \<le> q25 \<le> q50 \<le> q75 \<le> max\<close>, so the spread \<open>sig = 0.74 * (q75 - q25)\<close> that the
  births cell derives from them is not negative; and in general the percentile does
  not decrease when the requested percentage grows.
\<close>

theorem quartiles_ordered:
  assumes "vals \<noteq> []"
  shows "(\<exists>q25 q50 q75.
           percentile vals [25, 50, 75] = Inr [q25, q50, q75] \<and>
           Min (set vals) \<le> q25 \<and> q25 \<le> q50 \<and> q50 \<le> q75 \<and> q75 \<le> Max (set vals) \<and>
           quartile_band vals = Inr (q50, 0.74 * (q75 - q25)) \<and>
           0 \<le> 0.74 * (q75 - q25)) \<and>
         (\<forall>p q. 0 \<le> p \<longrightarrow> p \<le> q \<longrightarrow> q \<le> 100 \<longrightarrow>
            (\<exists>a b. percentile vals [p, q] = Inr [a, b] \<and> a \<le> b))"
proof -
  define s where "s = sort vals"
  have srt: "sorted s" and st: "set s = set vals"
    by (simp_all add: s_def)
  have ne: "s \<noteq> []"
    using st assms by auto
  define q25 where "q25 = quantile_linear s (25 / 100)"
  define q50 where "q50 = quantile_linear s (50 / 100)"
  define q75 where "q75 = quantile_linear s (75 / 100)"
  have p: "percentile vals [25, 50, 75] = Inr [q25, q50, q75]"
    using assms by (simp add: percentile_def q25_def q50_def q75_def s_def)
  have a: "Min (set vals) \<le> q25"
    using quantile_linear_bounds [OF srt ne, of "25 / 100"] by (simp add: q25_def st)
  have b: "q25 \<le> q50"
    unfolding q25_def q50_def by (rule quantile_linear_mono [OF srt ne]) simp_all
  have c: "q50 \<le> q75"
    unfolding q50_def q75_def by (rule quantile_linear_mono [OF srt ne]) simp_all
  have d: "q75 \<le> Max (set vals)"
    using quantile_linear_bounds [OF srt ne, of "75 / 100"] by (simp add: q75_def st)
  have e: "quartile_band vals = Inr (q50, 0.74 * (q75 - q25))"
    by (simp add: quartile_band_def p)
  have nonneg: "0 \<le> 0.74 * (q75 - q25)" using b c by simp
  have mono: "\<exists>a b. percentile vals [p, q] = Inr [a, b] \<and> a \<le> b"
    if "0 \<le> p" "p \<le> q" "q \<le> 100" for p q
    using percentile_pair_mono [OF assms that] .
  from p a b c d e nonneg mono show ?thesis by blast
qed

theorem quartiles_ordered_witness:
  "[1, 2, 3, 4 :: real] \<noteq> [] \<and>
   percentile [1, 2, 3, 4] [25, 50, 75] = Inr [7/4, 5/2, 13/4] \<and>
   Min (set [1, 2, 3, 4 :: real]) \<le> 7/4 \<and> (13/4 :: real) \<le> Max (set [1, 2, 3, 4]) \<and>
   quartile_band [1, 2, 3, 4] = Inr (5/2, 0.74 * (13/4 - 7/4))"
proof -
  have ne: "[1, 2, 3, 4 :: real] \<noteq> []" by simp
  have p: "percentile [1, 2, 3, 4] [25, 50, 75] = Inr [7/4, 5/2, 13/4]"
    by (simp add: percentile_def quantile_linear_def lerp_def Let_def)
  from quartiles_ordered [OF ne] p show ?thesis by auto
qed

subsection \<open>The births filter\<close>





subsection \<open>Histogram\<close>

lemma get_outer_edges_cases:
  "get_outer_edges a =
     (if a = [] then (0, 1)
      else if Min (set a) = Max (set a) then (Min (set a) - 1/2, Max (set a) + 1/2)
      else (Min (set a), Max (set a)))"
  by (simp add: get_outer_edges_def)

lemma outer_edges_lt:
  assumes "get_outer_edges a = (lo, hi)"
  shows "lo < hi"
proof (cases "a = []")
  case True
  with assms show ?thesis by (simp add: get_outer_edges_cases)
next
  case False
  then have le: "Min (set a) \<le> Max (set a)" by simp
  show ?thesis
  proof (cases "Min (set a) = Max (set a)")
    case True
    with assms False show ?thesis by (simp add: get_outer_edges_cases)
  next
    case ne: False
    with assms False have "lo = Min (set a)" "hi = Max (set a)"
      by (simp_all add: get_outer_edges_cases)
    with le ne show ?thesis by linarith
  qed
qed

lemma outer_edges_cover:
  assumes "get_outer_edges a = (lo, hi)" "v \<in> set a"
  shows "lo \<le> v \<and> v \<le> hi"
proof -
  have ne: "a \<noteq> []" using assms(2) by auto
  have mn: "Min (set a) \<le> v" and mx: "v \<le> Max (set a)" using assms(2) by simp_all
  show ?thesis
  proof (cases "Min (set a) = Max (set a)")
    case True
    with assms(1) ne have "lo = Min (set a) - 1/2" "hi = Max (set a) + 1/2"
      by (simp_all add: get_outer_edges_cases)
    with mn mx show ?thesis by linarith
  next
    case False
    with assms(1) ne have "lo = Min (set a)" "hi = Max (set a)"
      by (simp_all add: get_outer_edges_cases)
    with mn mx show ?thesis by linarith
  qed
qed

lemma linspace_nth:
  assumes "0 < K" "k \<le> K"
  shows "linspace lo hi (K + 1) ! k = lo + real k * ((hi - lo) / real K)"
  using assms by (simp add: linspace_def nth_append less_Suc_eq_le del: upt_Suc)

lemma bin_index_eq:
  assumes "lo < hi" "lo \<le> v" "v \<le> hi" "0 < K"
  shows "bin_index lo hi K (linspace lo hi (K + 1)) v
           = min \<lfloor>(v - lo) / (hi - lo) * real K\<rfloor> (int K - 1)"
proof -
  define f where "f = (v - lo) / (hi - lo) * real K"
  define w where "w = (hi - lo) / real K"
  have w0: "0 < w" using assms(1,4) by (simp add: w_def)
  have fw: "v = lo + f * w" using assms(1,4) by (simp add: f_def w_def)
  have f0: "0 \<le> f" using assms by (simp add: f_def)
  have fK: "f \<le> real K"
  proof -
    have "(v - lo) / (hi - lo) \<le> 1" using assms by simp
    then have "(v - lo) / (hi - lo) * real K \<le> 1 * real K"
      by (intro mult_right_mono) simp_all
    then show ?thesis by (simp add: f_def)
  qed
  define i0 where "i0 = \<lfloor>f\<rfloor>"
  have i0_0: "0 \<le> i0" using f0 by (simp add: i0_def)
  have i0_K: "i0 \<le> int K" using fK unfolding i0_def by (simp add: floor_le_iff) 
  define i1 where "i1 = (if i0 = int K then i0 - 1 else i0)"
  have i1_0: "0 \<le> i1" using i0_0 assms(4) by (auto simp: i1_def)
  have i1_K: "i1 \<le> int K - 1" using i0_K by (auto simp: i1_def)
  have i1_min: "i1 = min i0 (int K - 1)" using i0_K by (auto simp: i1_def)
  have e: "linspace lo hi (K + 1) ! nat j = lo + real_of_int j * w" if "0 \<le> j" "j \<le> int K" for j
    using linspace_nth [OF assms(4), of "nat j" lo hi] that by (simp add: w_def)
  have lower: "linspace lo hi (K + 1) ! nat i1 \<le> v"
  proof -
    have "real_of_int i1 \<le> f" using i1_min unfolding i0_def
      by (metis min.cobounded1 of_int_floor_le of_int_le_iff order_trans)
    then have "real_of_int i1 * w \<le> f * w" using w0 by simp
    then show ?thesis using e [of i1] i1_0 i1_K fw by simp
  qed
  have upper: "i1 \<noteq> int K - 1 \<longrightarrow> v < linspace lo hi (K + 1) ! nat (i1 + 1)"
  proof
    assume that: "i1 \<noteq> int K - 1"
    have "i1 = i0" using that i1_min by auto
    then have "f < real_of_int (i1 + 1)" unfolding i0_def by linarith
    then have "f * w < real_of_int (i1 + 1) * w" using w0 by simp
    then show "v < linspace lo hi (K + 1) ! nat (i1 + 1)"
      using e [of "i1 + 1"] i1_0 i1_K that fw by simp
  qed
  have "bin_index lo hi K (linspace lo hi (K + 1)) v = i1"
    unfolding bin_index_def Let_def f_def[symmetric] i0_def[symmetric] i1_def[symmetric]
    using lower upper by auto
  then show ?thesis by (simp add: i1_min i0_def f_def)
qed

lemma sum_count_list:
  assumes "\<forall>i \<in> set idx. 0 \<le> i \<and> i < int K"
  shows "sum_list (map (\<lambda>k. count_list idx (int k)) [0..<K]) = length idx"
  using assms
proof (induction idx)
  case Nil
  then show ?case by simp
next
  case (Cons i idx)
  then have i: "0 \<le> i" "i < int K" by auto
  have one: "sum_list (map (\<lambda>k. if i = int k then 1 else 0) [0..<K]) = (1::nat)"
  proof -
    have "sum_list (map (\<lambda>k. if i = int k then 1 else 0) [0..<K])
         = (\<Sum>k\<in>{0..<K}. if k = nat i then 1 else (0::nat))"
      unfolding interv_sum_list_conv_sum_set_nat using i by (intro sum.cong) auto
    also have "\<dots> = 1" using i by (subst sum.delta) auto
    finally show ?thesis .
  qed
  have "sum_list (map (\<lambda>k. count_list (i # idx) (int k)) [0..<K])
      = sum_list (map (\<lambda>k. (if i = int k then 1 else 0) + count_list idx (int k)) [0..<K])"
    by (intro arg_cong [where f = sum_list] map_cong) auto
  also have "\<dots> = 1 + length idx"
    using Cons one by (simp add: sum_list_addf)
  finally show ?case by simp
qed

lemma fold_max_le:
  "\<forall>i \<in> set xs. i \<le> b \<Longrightarrow> a \<le> b \<Longrightarrow> fold max xs a \<le> (b::int)"
  by (induction xs arbitrary: a) auto

lemma bincount_in_range:
  assumes "\<forall>i \<in> set idx. 0 \<le> i \<and> i < int K"
  shows "bincount idx K = Inr (map (\<lambda>k. count_list idx (int k)) [0..<K])"
proof -
  have "fold max idx (-1) \<le> int K - 1"
    using assms by (intro fold_max_le) auto
  then have "max K (nat (fold max idx (-1) + 1)) = K" by simp
  moreover have "\<not> list_ex (\<lambda>i. i < 0) idx"
    using assms by (auto simp: list_ex_iff)
  ultimately show ?thesis by (simp add: bincount_def)
qed

lemma bin_index_iff:
  assumes "lo < hi" "lo \<le> v" "v \<le> hi" "0 < K" "k < K"
  shows "bin_index lo hi K (linspace lo hi (K + 1)) v = int k
           \<longleftrightarrow> in_bin (linspace lo hi (K + 1)) K k v"
proof -
  define fi where "fi = (v - lo) / (hi - lo) * real K"
  define w where "w = (hi - lo) / real K"
  have w0: "0 < w" using assms(1,4) by (simp add: w_def)
  have fw: "v = lo + fi * w" using assms(1,4) by (simp add: fi_def w_def)
  have f0: "0 \<le> fi" using assms by (simp add: fi_def)
  have fK: "fi \<le> real K"
  proof -
    have "(v - lo) / (hi - lo) \<le> 1" using assms by simp
    then have "(v - lo) / (hi - lo) * real K \<le> 1 * real K"
      by (intro mult_right_mono) simp_all
    then show ?thesis by (simp add: fi_def)
  qed
  have b: "bin_index lo hi K (linspace lo hi (K + 1)) v = min \<lfloor>fi\<rfloor> (int K - 1)"
    unfolding fi_def by (rule bin_index_eq [OF assms(1-4)])
  have e0: "linspace lo hi (K + 1) ! k = lo + real k * w"
    using linspace_nth [OF assms(4), of k lo hi] assms(5) by (simp add: w_def)
  have e1: "linspace lo hi (K + 1) ! (k + 1) = lo + (real k + 1) * w"
    using linspace_nth [OF assms(4), of "k + 1" lo hi] assms(5) by (simp add: w_def)
  have le: "linspace lo hi (K + 1) ! k \<le> v \<longleftrightarrow> real k \<le> fi"
    unfolding e0 fw using w0 by simp
  have lt: "v < linspace lo hi (K + 1) ! (k + 1) \<longleftrightarrow> fi < real k + 1"
    unfolding e1 fw using w0 by simp
  have le1: "v \<le> linspace lo hi (K + 1) ! (k + 1) \<longleftrightarrow> fi \<le> real k + 1"
    unfolding e1 fw using w0 by simp
  show ?thesis
  proof (cases "k = K - 1")
    case True
    have "min \<lfloor>fi\<rfloor> (int K - 1) = int k \<longleftrightarrow> int K - 1 \<le> \<lfloor>fi\<rfloor>"
      using True assms(4) by auto
    also have "\<dots> \<longleftrightarrow> real K - 1 \<le> fi"
      by (metis le_floor_iff of_int_1 of_int_diff of_int_of_nat_eq)
    finally have "min \<lfloor>fi\<rfloor> (int K - 1) = int k \<longleftrightarrow> real k \<le> fi"
      using True assms(4) by (simp add: of_nat_diff)
    moreover have "fi \<le> real k + 1" using fK True assms(4) by (simp add: of_nat_diff)
    ultimately show ?thesis
      unfolding b in_bin_def le le1 using True by simp
  next
    case False
    then have kk: "int k < int K - 1" using assms(5) by linarith
    have "min \<lfloor>fi\<rfloor> (int K - 1) = int k \<longleftrightarrow> \<lfloor>fi\<rfloor> = int k"
      using kk by auto
    also have "\<dots> \<longleftrightarrow> real k \<le> fi \<and> fi < real k + 1"
      by (simp add: floor_eq_iff)
    finally show ?thesis
      unfolding b in_bin_def le lt using False by simp
  qed
qed

lemma count_list_map_filter:
  "count_list (map g xs) y = length (filter (\<lambda>x. g x = y) xs)"
  by (induction xs) auto

text \<open>
  C1: for every dataset of \<open>N\<close> values and every bin count \<open>K \<ge> 1\<close> the histogram
  succeeds with exactly \<open>K\<close> counts and \<open>K + 1\<close> bin edges; count \<open>k\<close> is the number of
  values in bin \<open>k\<close>, and the counts add up to \<open>N\<close>: each value is counted in exactly one
  bin.
\<close>

theorem histogram_counts_sum:
  assumes "1 \<le> K"
  shows "\<exists>counts bin_edges.
           histogram data K = Inr (counts, bin_edges) \<and>
           length counts = nat K \<and> length bin_edges = nat K + 1 \<and>
           (\<forall>k < nat K. counts ! k = length (filter (in_bin bin_edges (nat K) k) data)) \<and>
           sum_list counts = length data"
proof -
  obtain lo hi where oe: "get_outer_edges data = (lo, hi)"
    by (cases "get_outer_edges data") auto
  have lt: "lo < hi" using outer_edges_lt [OF oe] .
  have K0: "0 < nat K" using assms by simp
  define edges where "edges = linspace lo hi (nat K + 1)"
  define idx where "idx = map (bin_index lo hi (nat K) edges) data"
  have keep: "filter (\<lambda>v. v \<ge> lo \<and> v \<le> hi) data = data"
    using outer_edges_cover [OF oe] by (simp add: filter_id_conv)
  have rng: "\<forall>i \<in> set idx. 0 \<le> i \<and> i < int (nat K)"
  proof
    fix i assume "i \<in> set idx"
    then obtain v where v: "v \<in> set data" and i: "i = bin_index lo hi (nat K) edges v"
      by (auto simp: idx_def)
    have c: "lo \<le> v \<and> v \<le> hi" using outer_edges_cover [OF oe v] .
    have eq: "i = min \<lfloor>(v - lo) / (hi - lo) * real (nat K)\<rfloor> (int (nat K) - 1)"
      unfolding i edges_def using bin_index_eq [OF lt _ _ K0] c by simp
    have "0 \<le> (v - lo) / (hi - lo) * real (nat K)" using c lt by simp
    then have "0 \<le> \<lfloor>(v - lo) / (hi - lo) * real (nat K)\<rfloor>" by simp
    then show "0 \<le> i \<and> i < int (nat K)" using K0 unfolding eq by simp
  qed
  define counts where "counts = map (\<lambda>k. count_list idx (int k)) [0..<nat K]"
  have bc: "bincount idx (nat K) = Inr counts"
    unfolding counts_def by (rule bincount_in_range [OF rng])
  have h: "histogram data K = Inr (counts, edges)"
    using assms bc by (simp add: histogram_def oe keep Let_def edges_def idx_def)
  have "sum_list counts = length idx"
    unfolding counts_def by (rule sum_count_list [OF rng])
  then have s: "sum_list counts = length data" by (simp add: idx_def)
  have l1: "length counts = nat K" by (simp add: counts_def)
  have l2: "length edges = nat K + 1" by (simp add: edges_def length_linspace)
  have bins: "counts ! k = length (filter (in_bin edges (nat K) k) data)" if k: "k < nat K" for k
  proof -
    have "counts ! k = count_list idx (int k)" using k by (simp add: counts_def)
    also have "\<dots> = length (filter (\<lambda>v. bin_index lo hi (nat K) edges v = int k) data)"
      unfolding idx_def by (rule count_list_map_filter)
    also have "filter (\<lambda>v. bin_index lo hi (nat K) edges v = int k) data
        = filter (in_bin edges (nat K) k) data"
    proof (rule filter_cong [OF refl])
      fix v assume "v \<in> set data"
      then have c: "lo \<le> v" "v \<le> hi" using outer_edges_cover [OF oe] by simp_all
      show "(bin_index lo hi (nat K) edges v = int k) = in_bin edges (nat K) k v"
        unfolding edges_def by (rule bin_index_iff [OF lt c K0 k])
    qed
    finally show ?thesis .
  qed
  from h l1 l2 bins s show ?thesis by blast
qed

theorem histogram_counts_sum_witness:
  "(1::int) \<le> 5 \<and>
   histogram_cell [1, 2, 3, 4, 5, 5/2, 10]
     = Inr ([3, 2, 1, 0, 1], [1, 14 / 5, 23 / 5, 32 / 5, 41 / 5, 10]) \<and>
   length [3, 2, 1, 0, 1 :: nat] = nat 5 \<and>
   sum_list [3, 2, 1, 0, 1 :: nat] = length [1, 2, 3, 4, 5, 5/2, 10 :: real]"
proof -
  have k: "(1::int) \<le> 5" by simp
  have e: "histogram [1, 2, 3, 4, 5, 5/2, 10] 5
      = Inr ([3, 2, 1, 0, 1], [1, 14 / 5, 23 / 5, 32 / 5, 41 / 5, 10])"
    by code_simp
  from histogram_counts_sum [OF k, of "[1, 2, 3, 4, 5, 5/2, 10]"] e show ?thesis
    by (simp add: histogram_cell_def)
qed

subsection \<open>Grayscale colormaps\<close>























subsection \<open>Running cells\<close>

lemma keeps_store_call: "keeps_store (call label reads)"
  by (simp add: keeps_store_def call_def split: sum.splits prod.splits)

lemma run_cell_append:
  "run_cell (xs @ ys) w s =
     (case run_cell xs w s of (s', Some e) \<Rightarrow> (s', Some e) | (s', None) \<Rightarrow> run_cell ys w s')"
  by (induction xs arbitrary: s) (auto split: prod.splits option.splits)

lemma run_cell_keeps_store:
  "list_all keeps_store sts \<Longrightarrow>
     names (fst (run_cell sts w s)) = names s \<and> heap (fst (run_cell sts w s)) = heap s \<and>
     fresh (fst (run_cell sts w s)) = fresh s"
proof (induction sts arbitrary: s)
  case Nil
  then show ?case by simp
next
  case (Cons st sts)
  then have k: "keeps_store st" and ks: "list_all keeps_store sts" by simp_all
  obtain s' r where st: "st w s = (s', r)" by (cases "st w s")
  have eq: "names s' = names s \<and> heap s' = heap s \<and> fresh s' = fresh s"
    using k st unfolding keeps_store_def by (metis fst_conv)
  show ?case
  proof (cases r)
    case None
    then show ?thesis using st Cons.IH [OF ks, of s'] eq by simp
  next
    case (Some e)
    then show ?thesis using st eq by simp
  qed
qed

lemma value_of_cong: "names s' = names s \<Longrightarrow> heap s' = heap s \<Longrightarrow> value_of s' n = value_of s n"
  by (simp add: value_of_def split: option.splits)

lemma scatter_draws:
  assumes np: "value_of s ''np'' = Some v"
    and d: "rs_randn w (rs_seed w 0) 100 = (x, g1)" "rs_randn w g1 100 = (y, g2)"
    "rs_rand w g2 100 = (colors, g3)" "rs_rand w g3 100 = (sizes, g4)"
  shows "\<exists>s'. run_cell [new_generator ''rng'' [''np''] 0,
             draw ''x'' ''rng'' rs_randn 100 (\<lambda>v. v),
             draw ''y'' ''rng'' rs_randn 100 (\<lambda>v. v),
             draw ''colors'' ''rng'' rs_rand 100 (\<lambda>v. v),
             draw ''sizes'' ''rng'' rs_rand 100 (\<lambda>v. 1000 * v)] w s = (s', None) \<and>
          value_of s' ''x'' = Some (Arr1 x) \<and> value_of s' ''y'' = Some (Arr1 y) \<and>
          value_of s' ''colors'' = Some (Arr1 colors) \<and>
          value_of s' ''sizes'' = Some (Arr1 (map (\<lambda>v. 1000 * v) sizes))"
  using assms
  by (simp add: new_generator_def draw_def bind_name_def value_of_def)

text \<open>The generator of the marker loop: where it is and what state it is in.\<close>

lemma call_with_draws_on:
  assumes "names s gen = Some a" and "heap s a = Some (Gen g)"
  shows "call_with_draws gen rs_rand n label reads w s =
     call_on (fst (rs_rand w g n)) (fst (rs_rand w (snd (rs_rand w g n)) n)) label reads w
       (s\<lparr>heap := (heap s)(a \<mapsto> Gen (snd (rs_rand w (snd (rs_rand w g n)) n)))\<rparr>)"
  using assms
  by (simp add: call_with_draws_def call_on_def Let_def split: prod.splits sum.splits)

lemma marker_pass:
  assumes g: "names s ''rng'' = Some a" "heap s a = Some (Gen (marker_gen w k))" "a < fresh s"
    and run: "run_cell [define_name ''marker'' (StrVal m),
        call_with_draws ''rng'' rs_rand 5 label reads] w s = (s', None)"
  shows "names s' ''rng'' = Some a \<and> heap s' a = Some (Gen (marker_gen w (Suc k))) \<and>
         a < fresh s'"
proof -
  let ?s1 = "bind_name ''marker'' (StrVal m) s"
  have g1: "names ?s1 ''rng'' = Some a" "heap ?s1 a = Some (Gen (marker_gen w k))"
    "a < fresh ?s1"
    using g by (simp_all add: bind_name_def)
  from run have "call_with_draws ''rng'' rs_rand 5 label reads w ?s1 = (s', None)"
    by (simp add: define_name_def split: prod.splits option.splits)
  then show ?thesis
    unfolding call_with_draws_on [OF g1(1,2)] using g1
    by (auto simp: call_on_def split: sum.splits prod.splits)
qed

lemma marker_loop:
  assumes "names s ''rng'' = Some a" "heap s a = Some (Gen (marker_gen w k))" "a < fresh s"
    and "run_cell (for_each ms (\<lambda>marker. [define_name ''marker'' (StrVal marker),
        call_with_draws ''rng'' rs_rand 5 label reads])) w s = (s', None)"
  shows "names s' ''rng'' = Some a \<and> heap s' a = Some (Gen (marker_gen w (k + length ms))) \<and>
         a < fresh s'"
  using assms
proof (induction ms arbitrary: s k)
  case Nil
  then show ?case by (simp add: for_each_def)
next
  case (Cons m ms)
  let ?body = "\<lambda>marker. [define_name ''marker'' (StrVal marker),
        call_with_draws ''rng'' rs_rand 5 label reads]"
  have fe: "for_each (m # ms) ?body = ?body m @ for_each ms ?body"
    by (simp add: for_each_def)
  obtain s1 r where one: "run_cell (?body m) w s = (s1, r)" by (cases "run_cell (?body m) w s")
  from Cons.prems(4) have r: "r = None" and rest: "run_cell (for_each ms ?body) w s1 = (s', None)"
    unfolding fe run_cell_append one by (simp_all split: option.splits)
  from marker_pass [OF Cons.prems(1,2,3) one [unfolded r]]
  have g1: "names s1 ''rng'' = Some a" "heap s1 a = Some (Gen (marker_gen w (Suc k)))"
    "a < fresh s1" by simp_all
  from Cons.IH [OF g1 rest] show ?case by simp
qed


lemma take_for_each_pairs:
  assumes "\<And>m. length (body m) = 2"
  shows "take (2 * k) (for_each ms body) = for_each (take k ms) body"
proof (induction ms arbitrary: k)
  case Nil
  then show ?case by (simp add: for_each_def)
next
  case (Cons m ms)
  show ?case
  proof (cases k)
    case 0
    then show ?thesis by (simp add: for_each_def)
  next
    case (Suc j)
    have "take (2 * Suc j) (body m @ for_each ms body) = body m @ take (2 * j) (for_each ms body)"
      using assms [of m] by simp
    then show ?thesis using Cons.IH [of j] Suc by (simp add: for_each_def)
  qed
qed

lemma length_for_each_pairs:
  assumes "\<And>m. length (body m) = 2"
  shows "length (for_each ms body) = 2 * length ms"
  using assms by (induction ms) (simp_all add: for_each_def)

lemma for_each_pairs_decomp:
  assumes len: "\<And>m. length (body m) = 2" and k: "k < length ms"
  shows "for_each ms body = for_each (take k ms) body @ body (ms ! k) @ for_each (drop (Suc k) ms) body"
proof -
  have "ms = take k ms @ (ms ! k) # drop (Suc k) ms" using k by (simp add: id_take_nth_drop)
  then have "for_each ms body = for_each (take k ms @ (ms ! k) # drop (Suc k) ms) body" by simp
  then show ?thesis by (simp add: for_each_def)
qed


lemma new_generator_run:
  assumes "value_of s ''np'' \<noteq> None"
  shows "new_generator ''rng'' [''np''] 0 w s = (bind_name ''rng'' (Gen (rs_seed w 0)) s, None)"
  using assms by (auto simp: new_generator_def split: option.splits)

lemma scatter_cell6_pass:
  fixes w :: "'l world"
  assumes np: "value_of s ''np'' \<noteq> None" and k: "k < 11"
    and run: "run_cell (take (2 * k + 2) scatter_cell6) w s = (sk, None)"
  shows "\<exists>a. names sk ''rng'' = Some a \<and> heap sk a = Some (Gen (marker_gen w k)) \<and>
     (scatter_cell6 ! (2 * k + 2)) w sk =
       call_on (fst (marker_draws w k)) (snd (marker_draws w k))
         ''plt.plot(rng.rand(5), rng.rand(5), marker, label=marker={0}.format(marker))''
         [''plt'', ''marker''] w
         (sk\<lparr>heap := (heap sk)(a \<mapsto> Gen (marker_gen w (Suc k)))\<rparr>)"
proof -
  define ms :: "string list" where
    "ms = [''o'', ''.'', '','', ''x'', ''+'', ''v'', ''^'', ''<'', ''>'', ''s'', ''d'']"
  define label where
    "label = ''plt.plot(rng.rand(5), rng.rand(5), marker, label=marker={0}.format(marker))''"
  define body :: "string \<Rightarrow> 'l stmt list" where
    "body = (\<lambda>marker. [define_name ''marker'' (StrVal marker),
           call_with_draws ''rng'' rs_rand 5 label [''plt'', ''marker'']])"
  define ng :: "'l stmt" where "ng = new_generator ''rng'' [''np''] 0"
  define R :: "'l stmt list" where
    "R = for_each (drop (Suc k) ms) body @
       [call ''plt.legend(numpoints=1)'' [''plt''], call ''plt.xlim(0, 1.8)'' [''plt'']]"
  define P where "P = for_each (take k ms) body"
  define dn :: "'l stmt" where "dn = define_name ''marker'' (StrVal (ms ! k))"
  define cwd :: "'l stmt" where
    "cwd = call_with_draws ''rng'' rs_rand 5 label [''plt'', ''marker'']"
  have len: "length (body m) = 2" for m by (simp add: body_def)
  have lms: "length ms = 11" by (simp add: ms_def)
  have kms: "k < length ms" using k lms by simp
  have cell: "scatter_cell6 = ng # (P @ dn # cwd # R)"
    unfolding scatter_cell6_def ng_def P_def R_def dn_def cwd_def
    using for_each_pairs_decomp [of body k ms, OF len kms]
    by (simp add: ms_def [symmetric] label_def [symmetric] body_def [symmetric]) (simp add: body_def)
  have lP: "length P = 2 * k"
    unfolding P_def using length_for_each_pairs [of body "take k ms", OF len] kms by simp
  have tk: "take (2 * k + 2) scatter_cell6 = ng # (P @ [dn])"
    unfolding cell using lP by simp
  have nth: "scatter_cell6 ! (2 * k + 2) = cwd"
    unfolding cell using lP by (simp add: nth_append)
  let ?s0 = "bind_name ''rng'' (Gen (rs_seed w 0)) s"
  have s0: "ng w s = (?s0, None)" unfolding ng_def by (rule new_generator_run [OF np])
  have g0: "names ?s0 ''rng'' = Some (fresh s)" "heap ?s0 (fresh s) = Some (Gen (marker_gen w 0))"
    "fresh s < fresh ?s0"
    by (simp_all add: bind_name_def)
  from run have run1: "run_cell (P @ [dn]) w ?s0 = (sk, None)"
    unfolding tk using s0 by simp
  obtain s1 r where p: "run_cell P w ?s0 = (s1, r)" by (cases "run_cell P w ?s0")
  from run1 have r: "r = None" and d: "dn w s1 = (sk, None)"
    unfolding run_cell_append p by (simp_all split: option.splits prod.splits)
  from marker_loop [OF g0, of "take k ms" label "[''plt'', ''marker'']" s1]
    p [unfolded r P_def body_def]
  have g1: "names s1 ''rng'' = Some (fresh s)"
    "heap s1 (fresh s) = Some (Gen (marker_gen w k))" "fresh s < fresh s1"
    using kms by simp_all
  from d have sk: "sk = bind_name ''marker'' (StrVal (ms ! k)) s1"
    by (simp add: dn_def define_name_def)
  have gk: "names sk ''rng'' = Some (fresh s)" "heap sk (fresh s) = Some (Gen (marker_gen w k))"
    using g1 unfolding sk by (simp_all add: bind_name_def)
  have "cwd w sk = call_on (fst (marker_draws w k)) (snd (marker_draws w k)) label
         [''plt'', ''marker''] w
         (sk\<lparr>heap := (heap sk)(fresh s \<mapsto> Gen (marker_gen w (Suc k)))\<rparr>)"
    unfolding cwd_def call_with_draws_on [OF gk] by (simp add: marker_draws_def)
  with gk nth show ?thesis unfolding label_def by blast
qed

lemma scatter_cell6_first_pass:
  assumes np: "value_of s ''np'' \<noteq> None"
  shows "snd (run_cell (take 2 scatter_cell6) w s) = None"
  using np
  by (auto simp: scatter_cell6_def for_each_def new_generator_def define_name_def
      split: option.splits)


text \<open>
  C10: from any two kernel states in which \<open>np\<close> is bound, whatever else ran before and
  whatever state the libraries are in, the random scatter cell binds \<open>x\<close>, \<open>y\<close>, \<open>colors\<close>
  and \<open>sizes\<close> to the same four arrays, those drawn from the generator seeded with 0;
  and the marker cell, which also builds the generator seeded with 0, always reaches
  its first plot call, and whenever it reaches the plot call of pass \<open>k\<close> of its loop,
  the generator is in the state \<open>marker_gen w k\<close> and the call is the library's plot
  call on the two arrays \<open>marker_draws w k\<close>, which depend on the seeded generator
  alone.
\<close>

theorem scatter_cell_deterministic:
  assumes "value_of s1 ''np'' \<noteq> None" and "value_of s2 ''np'' \<noteq> None"
  shows "(\<exists>x y colors sizes.
           seeded_draws w = (x, y, colors, sizes) \<and>
           value_of (fst (run_cell scatter_cell15 w s1)) ''x'' = Some (Arr1 x) \<and>
           value_of (fst (run_cell scatter_cell15 w s2)) ''x'' = Some (Arr1 x) \<and>
           value_of (fst (run_cell scatter_cell15 w s1)) ''y'' = Some (Arr1 y) \<and>
           value_of (fst (run_cell scatter_cell15 w s2)) ''y'' = Some (Arr1 y) \<and>
           value_of (fst (run_cell scatter_cell15 w s1)) ''colors'' = Some (Arr1 colors) \<and>
           value_of (fst (run_cell scatter_cell15 w s2)) ''colors'' = Some (Arr1 colors) \<and>
           value_of (fst (run_cell scatter_cell15 w s1)) ''sizes'' = Some (Arr1 sizes) \<and>
           value_of (fst (run_cell scatter_cell15 w s2)) ''sizes'' = Some (Arr1 sizes)) \<and>
         snd (run_cell (take 2 scatter_cell6) w s1) = None \<and>
         snd (run_cell (take 2 scatter_cell6) w s2) = None \<and>
         (\<forall>k sk. k < 11 \<longrightarrow>
            (run_cell (take (2 * k + 2) scatter_cell6) w s1 = (sk, None) \<or>
             run_cell (take (2 * k + 2) scatter_cell6) w s2 = (sk, None)) \<longrightarrow>
            (\<exists>a. names sk ''rng'' = Some a \<and> heap sk a = Some (Gen (marker_gen w k)) \<and>
               (scatter_cell6 ! (2 * k + 2)) w sk =
                 call_on (fst (marker_draws w k)) (snd (marker_draws w k))
                   ''plt.plot(rng.rand(5), rng.rand(5), marker, label=marker={0}.format(marker))''
                   [''plt'', ''marker''] w
                   (sk\<lparr>heap := (heap sk)(a \<mapsto> Gen (marker_gen w (Suc k)))\<rparr>)))"
proof (intro conjI allI impI)
  show "\<exists>x y colors sizes.
           seeded_draws w = (x, y, colors, sizes) \<and>
           value_of (fst (run_cell scatter_cell15 w s1)) ''x'' = Some (Arr1 x) \<and>
           value_of (fst (run_cell scatter_cell15 w s2)) ''x'' = Some (Arr1 x) \<and>
           value_of (fst (run_cell scatter_cell15 w s1)) ''y'' = Some (Arr1 y) \<and>
           value_of (fst (run_cell scatter_cell15 w s2)) ''y'' = Some (Arr1 y) \<and>
           value_of (fst (run_cell scatter_cell15 w s1)) ''colors'' = Some (Arr1 colors) \<and>
           value_of (fst (run_cell scatter_cell15 w s2)) ''colors'' = Some (Arr1 colors) \<and>
           value_of (fst (run_cell scatter_cell15 w s1)) ''sizes'' = Some (Arr1 sizes) \<and>
           value_of (fst (run_cell scatter_cell15 w s2)) ''sizes'' = Some (Arr1 sizes)"
  proof -
    obtain x g1 where d1: "rs_randn w (rs_seed w 0) 100 = (x, g1)" by (cases "rs_randn w (rs_seed w 0) 100")
    obtain y g2 where d2: "rs_randn w g1 100 = (y, g2)" by (cases "rs_randn w g1 100")
    obtain colors g3 where d3: "rs_rand w g2 100 = (colors, g3)" by (cases "rs_rand w g2 100")
    obtain sizes g4 where d4: "rs_rand w g3 100 = (sizes, g4)" by (cases "rs_rand w g3 100")
    have sd: "seeded_draws w = (x, y, colors, map (\<lambda>v. 1000 * v) sizes)"
      by (simp add: seeded_draws_def d1 d2 d3 d4)
    have calls: "list_all keeps_store
        [call ''plt.scatter(x, y, c=colors, s=sizes, alpha=0.3, cmap=viridis)''
           [''plt'', ''x'', ''y'', ''colors'', ''sizes''],
         call ''plt.colorbar()'' [''plt''] :: 'a stmt]"
      by (simp add: keeps_store_call)
    have one: "value_of (fst (run_cell scatter_cell15 w s)) ''x'' = Some (Arr1 x) \<and>
        value_of (fst (run_cell scatter_cell15 w s)) ''y'' = Some (Arr1 y) \<and>
        value_of (fst (run_cell scatter_cell15 w s)) ''colors'' = Some (Arr1 colors) \<and>
        value_of (fst (run_cell scatter_cell15 w s)) ''sizes'' = Some (Arr1 (map (\<lambda>v. 1000 * v) sizes))"
      if np: "value_of s ''np'' \<noteq> None" for s :: "'a kernel"
    proof -
      from np obtain v where v: "value_of s ''np'' = Some v" by auto
      from scatter_draws [OF v d1 d2 d3 d4] obtain s' where
        run: "run_cell [new_generator ''rng'' [''np''] 0,
               draw ''x'' ''rng'' rs_randn 100 (\<lambda>v. v),
               draw ''y'' ''rng'' rs_randn 100 (\<lambda>v. v),
               draw ''colors'' ''rng'' rs_rand 100 (\<lambda>v. v),
               draw ''sizes'' ''rng'' rs_rand 100 (\<lambda>v. 1000 * v)] w s = (s', None)"
        and vals: "value_of s' ''x'' = Some (Arr1 x)" "value_of s' ''y'' = Some (Arr1 y)"
          "value_of s' ''colors'' = Some (Arr1 colors)"
          "value_of s' ''sizes'' = Some (Arr1 (map (\<lambda>v. 1000 * v) sizes))"
        by blast
      have split: "scatter_cell15 =
          [new_generator ''rng'' [''np''] 0,
               draw ''x'' ''rng'' rs_randn 100 (\<lambda>v. v),
               draw ''y'' ''rng'' rs_randn 100 (\<lambda>v. v),
               draw ''colors'' ''rng'' rs_rand 100 (\<lambda>v. v),
               draw ''sizes'' ''rng'' rs_rand 100 (\<lambda>v. 1000 * v)] @
          [call ''plt.scatter(x, y, c=colors, s=sizes, alpha=0.3, cmap=viridis)''
           [''plt'', ''x'', ''y'', ''colors'', ''sizes''],
         call ''plt.colorbar()'' [''plt'']]"
        by (simp add: scatter_cell15_def)
      have "fst (run_cell scatter_cell15 w s) =
          fst (run_cell [call ''plt.scatter(x, y, c=colors, s=sizes, alpha=0.3, cmap=viridis)''
           [''plt'', ''x'', ''y'', ''colors'', ''sizes''],
         call ''plt.colorbar()'' [''plt'']] w s')"
        unfolding split run_cell_append run by simp
      moreover note ks = run_cell_keeps_store [OF calls, of w s']
      ultimately have "value_of (fst (run_cell scatter_cell15 w s)) n = value_of s' n" for n
        by (intro value_of_cong) simp_all
      then show ?thesis using vals by simp
    qed
    from one [OF assms(1)] one [OF assms(2)] sd show ?thesis by blast
    qed
next
  show "snd (run_cell (take 2 scatter_cell6) w s1) = None"
    by (rule scatter_cell6_first_pass [OF assms(1)])
next
  show "snd (run_cell (take 2 scatter_cell6) w s2) = None"
    by (rule scatter_cell6_first_pass [OF assms(2)])
next
  fix k sk
  assume k: "k < 11"
    and "run_cell (take (2 * k + 2) scatter_cell6) w s1 = (sk, None) \<or>
         run_cell (take (2 * k + 2) scatter_cell6) w s2 = (sk, None)"
  then show "\<exists>a. names sk ''rng'' = Some a \<and> heap sk a = Some (Gen (marker_gen w k)) \<and>
               (scatter_cell6 ! (2 * k + 2)) w sk =
                 call_on (fst (marker_draws w k)) (snd (marker_draws w k))
                   ''plt.plot(rng.rand(5), rng.rand(5), marker, label=marker={0}.format(marker))''
                   [''plt'', ''marker''] w
                   (sk\<lparr>heap := (heap sk)(a \<mapsto> Gen (marker_gen w (Suc k)))\<rparr>)"
    using scatter_cell6_pass [OF assms(1) k] scatter_cell6_pass [OF assms(2) k] by blast
qed


theorem scatter_cell_deterministic_witness:
  "value_of (bind_name ''np'' (Lib ''numpy'') empty_kernel) ''np'' \<noteq> None \<and>
   value_of (bind_name ''plt'' (Lib ''pyplot'') (bind_name ''x'' (Arr1 [1, 2])
       (bind_name ''np'' (Lib ''numpy'') (empty_kernel\<lparr>lib := 7\<rparr>)))) ''np'' \<noteq> None \<and>
   value_of (fst (run_cell scatter_cell15 (failing_world [] ValueError)
       (bind_name ''np'' (Lib ''numpy'') empty_kernel))) ''x'' = Some (Arr1 (replicate 100 0)) \<and>
   value_of (fst (run_cell scatter_cell15 (failing_world [] ValueError)
       (bind_name ''plt'' (Lib ''pyplot'') (bind_name ''x'' (Arr1 [1, 2])
          (bind_name ''np'' (Lib ''numpy'') (empty_kernel\<lparr>lib := 7\<rparr>))))))
     ''x'' = Some (Arr1 (replicate 100 0)) \<and>
   value_of (fst (run_cell scatter_cell15 (failing_world [] ValueError)
       (bind_name ''np'' (Lib ''numpy'') empty_kernel))) ''sizes'' = Some (Arr1 (replicate 100 3000)) \<and>
   value_of (fst (run_cell scatter_cell15 (failing_world [] ValueError)
       (bind_name ''plt'' (Lib ''pyplot'') (bind_name ''x'' (Arr1 [1, 2])
          (bind_name ''np'' (Lib ''numpy'') (empty_kernel\<lparr>lib := 7\<rparr>))))))
     ''sizes'' = Some (Arr1 (replicate 100 3000)) \<and>
   marker_draws (failing_world [] ValueError) 1 = (replicate 5 2, replicate 5 3) \<and>
   snd (run_cell (take 4 scatter_cell6) (failing_world [] ValueError)
       (bind_name ''plt'' (Lib ''pyplot'') (bind_name ''x'' (Arr1 [1, 2])
          (bind_name ''np'' (Lib ''numpy'') (empty_kernel\<lparr>lib := 7\<rparr>))))) = None \<and>
   (\<exists>a. (scatter_cell6 ! 4) (failing_world [] ValueError)
       (fst (run_cell (take 4 scatter_cell6) (failing_world [] ValueError)
         (bind_name ''plt'' (Lib ''pyplot'') (bind_name ''x'' (Arr1 [1, 2])
            (bind_name ''np'' (Lib ''numpy'') (empty_kernel\<lparr>lib := 7\<rparr>)))))) =
      call_on (replicate 5 2) (replicate 5 3)
        ''plt.plot(rng.rand(5), rng.rand(5), marker, label=marker={0}.format(marker))''
        [''plt'', ''marker''] (failing_world [] ValueError)
        ((fst (run_cell (take 4 scatter_cell6) (failing_world [] ValueError)
           (bind_name ''plt'' (Lib ''pyplot'') (bind_name ''x'' (Arr1 [1, 2])
              (bind_name ''np'' (Lib ''numpy'') (empty_kernel\<lparr>lib := 7\<rparr>))))))
         \<lparr>heap := (heap (fst (run_cell (take 4 scatter_cell6) (failing_world [] ValueError)
           (bind_name ''plt'' (Lib ''pyplot'') (bind_name ''x'' (Arr1 [1, 2])
              (bind_name ''np'' (Lib ''numpy'') (empty_kernel\<lparr>lib := 7\<rparr>)))))))
            (a \<mapsto> Gen (marker_gen (failing_world [] ValueError) 2))\<rparr>))"
proof -
  define W where "W = failing_world [] ValueError"
  define S1 where "S1 = bind_name ''np'' (Lib ''numpy'') empty_kernel"
  define S2 where "S2 = bind_name ''plt'' (Lib ''pyplot'') (bind_name ''x'' (Arr1 [1, 2])
       (bind_name ''np'' (Lib ''numpy'') (empty_kernel\<lparr>lib := 7\<rparr>)))"
  have a: "value_of S1 ''np'' \<noteq> None"
    by (simp add: S1_def value_of_def bind_name_def empty_kernel_def)
  have b: "value_of S2 ''np'' \<noteq> None"
    by (simp add: S2_def value_of_def bind_name_def empty_kernel_def)
  have d: "seeded_draws W
      = (replicate 100 0, replicate 100 1, replicate 100 2, replicate 100 3000)"
    by (simp add: W_def seeded_draws_def failing_world_def counter_draw_def)
  have m: "marker_draws W 1 = (replicate 5 2, replicate 5 3)"
    by (simp add: W_def marker_draws_def failing_world_def counter_draw_def)
  have r0: "snd (run_cell (take 4 scatter_cell6) W S2) = None"
    by (simp add: W_def S2_def scatter_cell6_def for_each_def new_generator_def define_name_def
        call_with_draws_def failing_world_def counter_draw_def bind_name_def value_of_def
        empty_kernel_def Let_def)
  obtain sk r where run: "run_cell (take 4 scatter_cell6) W S2 = (sk, r)"
    by (cases "run_cell (take 4 scatter_cell6) W S2")
  have r: "r = None" using r0 run by simp
  note t = scatter_cell_deterministic [OF a b, of W]
  from t have c15: "\<exists>x y colors sizes.
           seeded_draws W = (x, y, colors, sizes) \<and>
           value_of (fst (run_cell scatter_cell15 W S1)) ''x'' = Some (Arr1 x) \<and>
           value_of (fst (run_cell scatter_cell15 W S2)) ''x'' = Some (Arr1 x) \<and>
           value_of (fst (run_cell scatter_cell15 W S1)) ''y'' = Some (Arr1 y) \<and>
           value_of (fst (run_cell scatter_cell15 W S2)) ''y'' = Some (Arr1 y) \<and>
           value_of (fst (run_cell scatter_cell15 W S1)) ''colors'' = Some (Arr1 colors) \<and>
           value_of (fst (run_cell scatter_cell15 W S2)) ''colors'' = Some (Arr1 colors) \<and>
           value_of (fst (run_cell scatter_cell15 W S1)) ''sizes'' = Some (Arr1 sizes) \<and>
           value_of (fst (run_cell scatter_cell15 W S2)) ''sizes'' = Some (Arr1 sizes)"
    by (rule conjunct1)
  with d have v: "value_of (fst (run_cell scatter_cell15 W S1)) ''x'' = Some (Arr1 (replicate 100 0))"
    "value_of (fst (run_cell scatter_cell15 W S2)) ''x'' = Some (Arr1 (replicate 100 0))"
    "value_of (fst (run_cell scatter_cell15 W S1)) ''sizes'' = Some (Arr1 (replicate 100 3000))"
    "value_of (fst (run_cell scatter_cell15 W S2)) ''sizes'' = Some (Arr1 (replicate 100 3000))"
    by auto
  from t have "\<forall>k sk. k < 11 \<longrightarrow>
            (run_cell (take (2 * k + 2) scatter_cell6) W S1 = (sk, None) \<or>
             run_cell (take (2 * k + 2) scatter_cell6) W S2 = (sk, None)) \<longrightarrow>
            (\<exists>a. names sk ''rng'' = Some a \<and> heap sk a = Some (Gen (marker_gen W k)) \<and>
               (scatter_cell6 ! (2 * k + 2)) W sk =
                 call_on (fst (marker_draws W k)) (snd (marker_draws W k))
                   ''plt.plot(rng.rand(5), rng.rand(5), marker, label=marker={0}.format(marker))''
                   [''plt'', ''marker''] W
                   (sk\<lparr>heap := (heap sk)(a \<mapsto> Gen (marker_gen W (Suc k)))\<rparr>))"
    by blast
  then have "1 < (11::nat) \<longrightarrow>
            (run_cell (take (2 * 1 + 2) scatter_cell6) W S1 = (sk, None) \<or>
             run_cell (take (2 * 1 + 2) scatter_cell6) W S2 = (sk, None)) \<longrightarrow>
            (\<exists>a. names sk ''rng'' = Some a \<and> heap sk a = Some (Gen (marker_gen W 1)) \<and>
               (scatter_cell6 ! (2 * 1 + 2)) W sk =
                 call_on (fst (marker_draws W 1)) (snd (marker_draws W 1))
                   ''plt.plot(rng.rand(5), rng.rand(5), marker, label=marker={0}.format(marker))''
                   [''plt'', ''marker''] W
                   (sk\<lparr>heap := (heap sk)(a \<mapsto> Gen (marker_gen W (Suc 1)))\<rparr>))"
    by blast
  moreover have "(2::nat) * 1 + 2 = 4" "Suc 1 = 2" by simp_all
  ultimately have "\<exists>a. names sk ''rng'' = Some a \<and> heap sk a = Some (Gen (marker_gen W 1)) \<and>
               (scatter_cell6 ! 4) W sk =
                 call_on (fst (marker_draws W 1)) (snd (marker_draws W 1))
                   ''plt.plot(rng.rand(5), rng.rand(5), marker, label=marker={0}.format(marker))''
                   [''plt'', ''marker''] W
                   (sk\<lparr>heap := (heap sk)(a \<mapsto> Gen (marker_gen W 2))\<rparr>)"
    using run r by (simp only: ) simp
  then have "\<exists>a. (scatter_cell6 ! 4) W sk =
      call_on (replicate 5 2) (replicate 5 3)
        ''plt.plot(rng.rand(5), rng.rand(5), marker, label=marker={0}.format(marker))''
        [''plt'', ''marker''] W (sk\<lparr>heap := (heap sk)(a \<mapsto> Gen (marker_gen W 2))\<rparr>)"
    unfolding m fst_conv snd_conv by blast
  with a b v m run r show ?thesis
    unfolding W_def S1_def S2_def by simp
qed

subsection \<open>Errors of library calls\<close>





lemma value_of_bind_other:
  assumes "wf_kernel s" "n \<noteq> m"
  shows "value_of (bind_name m v s) n = value_of s n"
  using assms by (auto simp: value_of_def bind_name_def wf_kernel_def split: option.splits)

lemma heap_bind_old:
  assumes "wf_kernel s" "heap s a = Some v"
  shows "heap (bind_name m u s) a = Some v"
  using assms by (auto simp: bind_name_def wf_kernel_def)



subsection \<open>Arrays across cells\<close>

lemma arrays_kept_refl: "wf_kernel s \<Longrightarrow> arrays_kept s s"
  by (simp add: arrays_kept_def)

lemma arrays_kept_trans: "arrays_kept s s1 \<Longrightarrow> arrays_kept s1 s2 \<Longrightarrow> arrays_kept s s2"
  by (auto simp: arrays_kept_def)

lemma arrays_kept_lib: "wf_kernel s \<Longrightarrow> arrays_kept s (s\<lparr>lib := l\<rparr>)"
  by (simp add: arrays_kept_def wf_kernel_def)

lemma arrays_kept_bind_name: "wf_kernel s \<Longrightarrow> arrays_kept s (bind_name n v s)"
  by (auto simp: arrays_kept_def wf_kernel_def bind_name_def less_Suc_eq)

lemma arrays_kept_bind_all: "wf_kernel s \<Longrightarrow> arrays_kept s (bind_all ns vs s)"
proof (induction ns vs s rule: bind_all.induct)
  case (1 n ns v vs s)
  have a: "arrays_kept s (bind_name n v s)" using "1.prems" by (rule arrays_kept_bind_name)
  then have "wf_kernel (bind_name n v s)" by (simp add: arrays_kept_def)
  then have "arrays_kept (bind_name n v s) (bind_all ns vs (bind_name n v s))" by (rule "1.IH")
  with a show ?case by (auto intro: arrays_kept_trans)
qed (simp_all add: arrays_kept_refl)

lemma keeps_arrays_assign: "keeps_arrays (assign targets label reads)"
proof -
  have "arrays_kept s (fst (assign targets label reads w s))" if wf: "wf_kernel s" for w and s :: "'a kernel"
  proof -
    have l: "arrays_kept s (s\<lparr>lib := l\<rparr>)" for l using wf by (rule arrays_kept_lib)
    have b: "arrays_kept s (bind_all targets vals (s\<lparr>lib := l\<rparr>))" for vals l
      using l [of l] arrays_kept_bind_all [of "s\<lparr>lib := l\<rparr>" targets vals]
      by (auto simp: arrays_kept_def)
    show ?thesis
      using wf l b by (auto simp: assign_def arrays_kept_refl split: sum.splits prod.splits)
  qed
  then show ?thesis by (simp add: keeps_arrays_def)
qed

lemma keeps_arrays_call: "keeps_arrays (call label reads)"
  by (auto simp: keeps_arrays_def call_def arrays_kept_refl arrays_kept_lib
      split: sum.splits prod.splits)

lemma keeps_arrays_define_name: "keeps_arrays (define_name target v)"
  by (simp add: keeps_arrays_def define_name_def arrays_kept_bind_name)

lemma keeps_arrays_compute: "keeps_arrays (compute targets reads fn)"
  by (auto simp: keeps_arrays_def compute_def arrays_kept_refl arrays_kept_bind_all
      split: sum.splits)

lemma keeps_arrays_new_generator: "keeps_arrays (new_generator target reads seed)"
  by (auto simp: keeps_arrays_def new_generator_def arrays_kept_refl arrays_kept_bind_name
      split: sum.splits)

lemma arrays_kept_gen:
  assumes "wf_kernel s" "heap s a = Some (Gen g)"
  shows "arrays_kept s (s\<lparr>heap := (heap s)(a \<mapsto> Gen g')\<rparr>)"
  using assms by (auto simp: arrays_kept_def wf_kernel_def)

lemma keeps_arrays_draw: "keeps_arrays (draw target gen sampler n post)"
proof -
  have "arrays_kept s (fst (draw target gen sampler n post w s))" if wf: "wf_kernel s"
    for w and s :: "'a kernel"
  proof (cases "names s gen")
    case None
    then show ?thesis using wf by (simp add: draw_def arrays_kept_refl)
  next
    case (Some a)
    show ?thesis
    proof (cases "\<exists>g. heap s a = Some (Gen g)")
      case True
      then obtain g where g: "heap s a = Some (Gen g)" by blast
      obtain vals g' where d: "sampler w g n = (vals, g')" by (cases "sampler w g n")
      have 1: "arrays_kept s (s\<lparr>heap := (heap s)(a \<mapsto> Gen g')\<rparr>)"
        using wf g by (rule arrays_kept_gen)
      then have "wf_kernel (s\<lparr>heap := (heap s)(a \<mapsto> Gen g')\<rparr>)" by (simp add: arrays_kept_def)
      then have 2: "arrays_kept (s\<lparr>heap := (heap s)(a \<mapsto> Gen g')\<rparr>)
          (bind_name target (Arr1 (map post vals)) (s\<lparr>heap := (heap s)(a \<mapsto> Gen g')\<rparr>))"
        by (rule arrays_kept_bind_name)
      show ?thesis using arrays_kept_trans [OF 1 2] Some g d by (simp add: draw_def)
    next
      case False
      then show ?thesis using wf Some
        by (auto simp: draw_def arrays_kept_refl split: option.splits obj.splits)
    qed
  qed
  then show ?thesis by (simp add: keeps_arrays_def)
qed

lemma keeps_arrays_call_with_draws: "keeps_arrays (call_with_draws gen sampler n label reads)"
proof -
  have "arrays_kept s (fst (call_with_draws gen sampler n label reads w s))" if wf: "wf_kernel s"
    for w and s :: "'a kernel"
  proof (cases "names s gen")
    case None
    then show ?thesis using wf by (simp add: call_with_draws_def arrays_kept_refl)
  next
    case (Some a)
    show ?thesis
    proof (cases "\<exists>g. heap s a = Some (Gen g)")
      case True
      then obtain g where g: "heap s a = Some (Gen g)" by blast
      obtain v1 g1 where d1: "sampler w g n = (v1, g1)" by (cases "sampler w g n")
      obtain v2 g2 where d2: "sampler w g1 n = (v2, g2)" by (cases "sampler w g1 n")
      define s' where "s' = s\<lparr>heap := (heap s)(a \<mapsto> Gen g2)\<rparr>"
      have 1: "arrays_kept s s'"
        unfolding s'_def using wf g by (rule arrays_kept_gen)
      then have wf': "wf_kernel s'" by (simp add: arrays_kept_def)
      have 2: "arrays_kept s (s'\<lparr>lib := l\<rparr>)" for l
        using arrays_kept_trans [OF 1 arrays_kept_lib [OF wf']] .
      show ?thesis using 1 2 Some g d1 d2
        by (auto simp: call_with_draws_def s'_def [symmetric] Let_def split: sum.splits prod.splits)
    next
      case False
      then show ?thesis using wf Some
        by (auto simp: call_with_draws_def arrays_kept_refl split: option.splits obj.splits)
    qed
  qed
  then show ?thesis by (simp add: keeps_arrays_def)
qed

lemma run_cell_arrays_kept:
  "list_all keeps_arrays c \<Longrightarrow> wf_kernel s \<Longrightarrow> arrays_kept s (fst (run_cell c w s))"
proof (induction c arbitrary: s)
  case Nil
  then show ?case by (simp add: arrays_kept_refl)
next
  case (Cons st c)
  then have k: "keeps_arrays st" and ks: "list_all keeps_arrays c" by simp_all
  obtain s1 r where st: "st w s = (s1, r)" by (cases "st w s")
  have 1: "arrays_kept s s1" using k Cons.prems(2) st unfolding keeps_arrays_def by (metis fst_conv)
  show ?case
  proof (cases r)
    case None
    have "wf_kernel s1" using 1 by (simp add: arrays_kept_def)
    then have "arrays_kept s1 (fst (run_cell c w s1))" by (rule Cons.IH [OF ks])
    with 1 show ?thesis using st None by (auto intro: arrays_kept_trans)
  next
    case (Some e)
    then show ?thesis using st 1 by simp
  qed
qed

lemma list_all_for_each:
  "(\<And>x. x \<in> set xs \<Longrightarrow> list_all P (body x)) \<Longrightarrow> list_all P (for_each xs body)"
  by (auto simp: for_each_def list_all_iff)

lemmas keeps_arrays_intros =
  keeps_arrays_assign keeps_arrays_call keeps_arrays_define_name keeps_arrays_compute
  keeps_arrays_new_generator keeps_arrays_draw keeps_arrays_call_with_draws

lemma list_all_for_each_iff:
  "list_all P (for_each xs body) \<longleftrightarrow> (\<forall>x \<in> set xs. list_all P (body x))"
  by (auto simp: for_each_def list_all_iff)

lemma other_cells_keep_arrays:
  "list_all (list_all keeps_arrays) (other_cells :: 'l stmt list list)"
  unfolding other_cells_def
    intro_cell4_def intro_cell7_def intro_cell14_def intro_cell16_def intro_cell18_def
      intro_cell20_def intro_cell22_def intro_cell24_def intro_cell28_def intro_cell31_def
      scatter_cell2_def scatter_cell4_def scatter_cell6_def scatter_cell8_def scatter_cell10_def
      scatter_cell13_def scatter_cell15_def scatter_cell17_def scatter_cell18_def
      contour_cell2_def contour_cell5_def contour_cell7_def contour_cell9_def contour_cell11_def
      contour_cell13_def contour_cell15_def contour_cell18_def hist_cell2_def hist_cell3_def
      hist_cell5_def hist_cell7_def hist_cell9_def hist_cell11_def hist_cell13_def
      hist_cell15_def hist_cell18_def hist_cell21_def legends_cell2_def legends_cell3_def
      legends_cell4_def legends_cell6_def legends_cell8_def legends_cell10_def legends_cell13_def
      legends_cell15_def legends_cell18_def legends_cell21_def colorbars_cell2_def
      colorbars_cell3_def colorbars_cell5_def colorbars_cell8_def colorbars_cell11_def
      colorbars_cell12_def colorbars_cell14_def colorbars_cell16_def colorbars_cell18_def
      colorbars_cell24_def colorbars_cell27_def colorbars_cell29_def colorbars_cell31_def
      subplots_cell2_def subplots_cell4_def subplots_cell6_def subplots_cell9_def
      subplots_cell11_def subplots_cell14_def subplots_cell16_def subplots_cell19_def
      subplots_cell21_def subplots_cell23_def text_cell2_def text_cell4_def text_cell5_def
      text_cell7_def text_cell10_def text_cell12_def text_cell15_def text_cell17_def
      errorbars_cell3_def errorbars_cell4_def errorbars_cell6_def errorbars_cell9_def
      errorbars_cell11_def
  by (simp add: keeps_arrays_intros list_all_for_each_iff)

lemma fill_row_unmasked:
  "length ms = length row \<Longrightarrow> fill_row row ms vals = (r, rest) \<Longrightarrow>
     length r = length row \<and> (\<forall>j < length row. \<not> ms ! j \<longrightarrow> r ! j = row ! j)"
proof (induction row ms vals arbitrary: r rest rule: fill_row.induct)
  case (1 a row m ms vals)
  show ?case
  proof (cases m)
    case True
    show ?thesis
    proof (cases vals)
      case Nil
      obtain r' rest' where f: "fill_row row ms [] = (r', rest')" by (cases "fill_row row ms []")
      have "length r' = length row \<and> (\<forall>j < length row. \<not> ms ! j \<longrightarrow> r' ! j = row ! j)"
        using "1.IH"(1) [OF True Nil _ f] "1.prems"(1) by simp
      moreover have "r = a # r'" using "1.prems"(2) True Nil f by simp
      ultimately show ?thesis using True by (auto simp: nth_Cons')
    next
      case (Cons v vs)
      obtain r' rest' where f: "fill_row row ms vs = (r', rest')" by (cases "fill_row row ms vs")
      have "length r' = length row \<and> (\<forall>j < length row. \<not> ms ! j \<longrightarrow> r' ! j = row ! j)"
        using "1.IH"(2) [OF True Cons _ f] "1.prems"(1) by simp
      moreover have "r = v # r'" using "1.prems"(2) True Cons f by simp
      ultimately show ?thesis using True by (auto simp: nth_Cons')
    qed
  next
    case False
    obtain r' rest' where f: "fill_row row ms vals = (r', rest')" by (cases "fill_row row ms vals")
    have "length r' = length row \<and> (\<forall>j < length row. \<not> ms ! j \<longrightarrow> r' ! j = row ! j)"
      using "1.IH"(3) [OF False _ f] "1.prems"(1) by simp
    moreover have "r = a # r'" using "1.prems"(2) False f by simp
    ultimately show ?thesis by (auto simp: nth_Cons')
  qed
qed auto

lemma fill_rows_unmasked:
  "map length M = map length A \<Longrightarrow>
     map length (fill_rows A M vals) = map length A \<and>
     (\<forall>i j. i < length A \<longrightarrow> j < length (A ! i) \<longrightarrow> \<not> M ! i ! j \<longrightarrow>
        fill_rows A M vals ! i ! j = A ! i ! j)"
proof (induction A M vals rule: fill_rows.induct)
  case (1 row rows ms mss vals)
  obtain r rest where f: "fill_row row ms vals = (r, rest)" by (cases "fill_row row ms vals")
  have len: "length ms = length row" and tl: "map length mss = map length rows"
    using "1.prems" by simp_all
  note row = fill_row_unmasked [OF len f]
  note rows = "1.IH" [OF f [symmetric] tl]
  show ?case
    using row rows f by (auto simp: nth_Cons' split: if_splits)
qed auto

lemma setitem_mask2_unmasked:
  assumes "setitem_mask2 A M vs = Inr A'"
  shows "map length A' = map length A \<and>
     (\<forall>i j. i < length A \<longrightarrow> j < length (A ! i) \<longrightarrow> \<not> M ! i ! j \<longrightarrow> A' ! i ! j = A ! i ! j)"
proof -
  from assms have sh: "map length M = map length A"
    by (auto simp: setitem_mask2_def split: if_splits)
  from assms obtain vals where "A' = fill_rows A M vals"
    by (auto simp: setitem_mask2_def split: if_splits)
  then show ?thesis using fill_rows_unmasked [OF sh, of vals] by simp
qed

lemma assign1_cases:
  assumes "assign [t] label reads w s = (s', r)"
  shows "(\<exists>l. s' = s\<lparr>lib := l\<rparr> \<and> r \<noteq> None) \<or>
         (\<exists>l v. s' = bind_name t v (s\<lparr>lib := l\<rparr>) \<and> r = None)"
proof (cases "lookup_all s reads")
  case (Inl e)
  with assms have "s' = s\<lparr>lib := lib s\<rparr>" "r = Some e" by (simp_all add: assign_def)
  then show ?thesis by blast
next
  case (Inr args)
  obtain res l where c: "lib_call w label args (lib s) = (res, l)"
    by (cases "lib_call w label args (lib s)")
  show ?thesis
  proof (cases res)
    case (Inl e)
    with assms Inr c have "s' = s\<lparr>lib := l\<rparr>" "r = Some e" by (simp_all add: assign_def)
    then show ?thesis by blast
  next
    case vals: (Inr vals)
    show ?thesis
    proof (cases "length vals = 1")
      case True
      then obtain v where v: "vals = [v]" by (cases vals) auto
      with assms Inr c vals have "s' = bind_name t v (s\<lparr>lib := l\<rparr>)" "r = None"
        by (simp_all add: assign_def)
      then show ?thesis by blast
    next
      case False
      with assms Inr c vals have "s' = s\<lparr>lib := l\<rparr>" "r = Some ValueError"
        by (simp_all add: assign_def)
      then show ?thesis by blast
    qed
  qed
qed

lemma setitem_masked_cases:
  assumes "setitem_masked t m label reads w s = (s', r)"
  shows "(\<exists>l. s' = s\<lparr>lib := l\<rparr> \<and> r \<noteq> None) \<or>
         (\<exists>l a A M vs A'. names s t = Some a \<and> heap s a = Some (Arr2 A) \<and>
            value_of s m = Some (Mask2 M) \<and> setitem_mask2 A M vs = Inr A' \<and>
            s' = s\<lparr>lib := l, heap := (heap s)(a \<mapsto> Arr2 A')\<rparr> \<and> r = None)"
proof (cases "lookup_all s reads")
  case (Inl e)
  with assms have "s' = s\<lparr>lib := lib s\<rparr>" "r = Some e" by (simp_all add: setitem_masked_def)
  then show ?thesis by blast
next
  case (Inr args)
  obtain res l where c: "lib_call w label args (lib s) = (res, l)"
    by (cases "lib_call w label args (lib s)")
  show ?thesis
  proof (cases res)
    case (Inl e)
    with assms Inr c have "s' = s\<lparr>lib := l\<rparr>" "r = Some e"
      by (simp_all add: setitem_masked_def)
    then show ?thesis by blast
  next
    case vals: (Inr vals)
    show ?thesis
    proof (cases r)
      case (Some e)
      with assms Inr c vals have "s' = s\<lparr>lib := l\<rparr>"
        by (auto simp: setitem_masked_def Let_def value_of_def
            split: option.splits obj.splits list.splits sum.splits)
      with Some show ?thesis by blast
    next
      case None
      with assms Inr c vals show ?thesis
        by (auto simp: setitem_masked_def Let_def value_of_def
            split: option.splits obj.splits list.splits sum.splits)
    qed
  qed
qed

lemma value_of_lib [simp]: "value_of (s\<lparr>lib := l\<rparr>) n = value_of s n"
  by (simp add: value_of_def split: option.splits)

lemma wf_kernel_lib [simp]: "wf_kernel (s\<lparr>lib := l\<rparr>) = wf_kernel s"
  by (simp add: wf_kernel_def)

lemma speckle_cell_effect:
  fixes s :: "'l kernel" and w :: "'l world"
  assumes wf: "wf_kernel s"
  defines "sf \<equiv> fst (run_cell colorbars_cell21 w s)"
  shows "(\<forall>a v. heap s a = Some v \<longrightarrow> names s ''I'' \<noteq> Some a \<longrightarrow> heap sf a = Some v) \<and>
         names sf ''I'' = names s ''I'' \<and>
         (\<forall>A. value_of s ''I'' = Some (Arr2 A) \<longrightarrow>
            (\<exists>A'. value_of sf ''I'' = Some (Arr2 A') \<and> map length A' = map length A \<and>
               (\<forall>M i j. value_of sf ''speckles'' = Some (Mask2 M) \<longrightarrow> i < length A \<longrightarrow>
                  j < length (A ! i) \<longrightarrow> \<not> M ! i ! j \<longrightarrow> A' ! i ! j = A ! i ! j)))"
proof -
  define calls :: "'l stmt list" where "calls =
     [call ''plt.figure(figsize=(10, 3.5))'' [''plt''],
      call ''plt.subplot(1, 2, 1)'' [''plt''],
      call ''plt.imshow(I, cmap=RdBu)'' [''plt'', ''I''],
      call ''plt.colorbar()'' [''plt''],
      call ''plt.subplot(1, 2, 2)'' [''plt''],
      call ''plt.imshow(I, cmap=RdBu)'' [''plt'', ''I''],
      call ''plt.colorbar(extend=both)'' [''plt''],
      call ''plt.clim(-1, 1)'' [''plt'']]"
  define st1 :: "'l stmt" where
    "st1 = assign [''speckles''] ''(np.random.random(I.shape) < 0.01)'' [''np'', ''I'']"
  define st2 :: "'l stmt" where
    "st2 = setitem_masked ''I'' ''speckles'' ''np.random.normal(0, 3, np.count_nonzero(speckles))''
        [''np'', ''speckles'']"
  have cell: "colorbars_cell21 = st1 # st2 # calls"
    by (simp add: colorbars_cell21_def st1_def st2_def calls_def)
  have ks: "list_all keeps_store calls"
    by (simp add: calls_def keeps_store_call)
  obtain s1 r1 where a1: "st1 w s = (s1, r1)" by (cases "st1 w s")
  from assign1_cases [OF a1 [unfolded st1_def]]
  consider (fail1) l where "s1 = s\<lparr>lib := l\<rparr>" "r1 \<noteq> None"
    | (ok1) l v where "s1 = bind_name ''speckles'' v (s\<lparr>lib := l\<rparr>)" "r1 = None"
    by blast
  then show ?thesis
  proof cases
    case fail1
    then have "sf = s\<lparr>lib := l\<rparr>" using a1 by (auto simp: sf_def cell)
    then show ?thesis by simp
  next
    case ok1
    have wf0: "wf_kernel (s\<lparr>lib := l\<rparr>)" using wf by simp
    have n1: "names s1 ''I'' = names s ''I''" using ok1 by (simp add: bind_name_def)
    have h1: "heap s1 a = Some v" if "heap s a = Some v" for a v
      using heap_bind_old [OF wf0, of a v] that ok1 by simp
    have v1: "value_of s1 ''I'' = value_of s ''I''"
      using value_of_bind_other [OF wf0, of "''I''" "''speckles''" v] ok1 by simp
    have sp1: "value_of s1 ''speckles'' = Some v"
      using ok1 by (simp add: value_of_def bind_name_def)
    have fresh1: "names s1 ''speckles'' = Some (fresh s)"
      using ok1 by (simp add: bind_name_def)
    have I_old: "a < fresh s" if "names s ''I'' = Some a" for a
      using wf that by (auto simp: wf_kernel_def)
    obtain s2 r2 where a2: "st2 w s1 = (s2, r2)" by (cases "st2 w s1")
    have run: "run_cell colorbars_cell21 w s =
        (case r2 of Some e \<Rightarrow> (s2, Some e) | None \<Rightarrow> run_cell calls w s2)"
      using a1 ok1 a2 by (simp add: cell)
    have store: "names sf = names s2 \<and> heap sf = heap s2"
    proof (cases r2)
      case None
      then show ?thesis using run run_cell_keeps_store [OF ks, of w s2] by (simp add: sf_def)
    next
      case (Some e)
      then show ?thesis using run by (simp add: sf_def)
    qed
    then have vf: "value_of sf n = value_of s2 n" for n
      by (simp add: value_of_def split: option.splits)
    from setitem_masked_cases [OF a2 [unfolded st2_def]]
    consider (fail2) l' where "s2 = s1\<lparr>lib := l'\<rparr>"
      | (ok2) l' a A0 M vs A' where "names s1 ''I'' = Some a" "heap s1 a = Some (Arr2 A0)"
          "value_of s1 ''speckles'' = Some (Mask2 M)" "setitem_mask2 A0 M vs = Inr A'"
          "s2 = s1\<lparr>lib := l', heap := (heap s1)(a \<mapsto> Arr2 A')\<rparr>"
      by blast
    then show ?thesis
    proof cases
      case fail2
      have "names sf ''I'' = names s ''I''" using store fail2 n1 by simp
      moreover have "\<forall>a v. heap s a = Some v \<longrightarrow> names s ''I'' \<noteq> Some a \<longrightarrow> heap sf a = Some v"
        using store fail2 h1 by simp
      moreover have "value_of sf ''I'' = value_of s ''I''" using vf fail2 v1 by simp
      ultimately show ?thesis by simp
    next
      case ok2
      have a_old: "a < fresh s" using I_old ok2(1) n1 by simp
      have names2: "names s2 = names s1" using ok2(5) by simp
      have p2: "names sf ''I'' = names s ''I''" using store names2 n1 by simp
      have p1: "\<forall>b v. heap s b = Some v \<longrightarrow> names s ''I'' \<noteq> Some b \<longrightarrow> heap sf b = Some v"
        using store ok2(1,5) h1 n1 by auto
      have I2: "value_of s2 ''I'' = Some (Arr2 A')"
        using ok2(1,5) by (simp add: value_of_def)
      have sp2: "value_of s2 ''speckles'' = Some (Mask2 M)"
        using ok2(3,5) fresh1 a_old by (auto simp: value_of_def)
      have p3: "\<exists>A''. value_of sf ''I'' = Some (Arr2 A'') \<and> map length A'' = map length A \<and>
               (\<forall>M i j. value_of sf ''speckles'' = Some (Mask2 M) \<longrightarrow> i < length A \<longrightarrow>
                  j < length (A ! i) \<longrightarrow> \<not> M ! i ! j \<longrightarrow> A'' ! i ! j = A ! i ! j)"
        if "value_of s ''I'' = Some (Arr2 A)" for A
      proof -
        have "value_of s1 ''I'' = Some (Arr2 A)" using that v1 by simp
        then have "A0 = A" using ok2(1,2) by (simp add: value_of_def)
        then show ?thesis
          using setitem_mask2_unmasked [OF ok2(4)] vf I2 sp2 by auto
      qed
      from p1 p2 p3 show ?thesis by blast
    qed
  qed
qed

lemma fill_row_all_false: "fill_row row (map (\<lambda>_. False) ms) vals = (row, vals)"
proof (induction row arbitrary: ms)
  case Nil
  then show ?case by simp
next
  case (Cons a row)
  then show ?case by (cases ms) simp_all
qed

lemma fill_rows_all_false: "fill_rows rows (map (map (\<lambda>_. False)) mss) vals = rows"
proof (induction rows arbitrary: mss)
  case Nil
  then show ?case by simp
next
  case (Cons row rows)
  then show ?case by (cases mss) (simp_all add: fill_row_all_false)
qed

lemma filter_all_false: "filter (\<lambda>m. m) (map (\<lambda>_. False) xs) = []"
  by (induction xs) simp_all

lemma setitem_one_speckle:
  assumes "A \<noteq> []" "hd A \<noteq> []"
  shows "setitem_mask2 A (one_speckle A) [v] = Inr ((v # tl (hd A)) # tl A)"
proof -
  from assms obtain a row rows where A: "A = (a # row) # rows"
    by (cases A; cases "hd A") auto
  have m: "one_speckle ((a # row) # rows)
      = (True # map (\<lambda>_. False) row) # map (map (\<lambda>_. False)) rows"
    by (simp add: one_speckle_def)
  have sh: "map length (one_speckle A) = map length A"
    by (simp add: A m comp_def)
  have "sum_list (map (\<lambda>ms. length (filter (\<lambda>m. m) ms)) (map (map (\<lambda>_. False)) rows)) = 0"
    by (simp add: comp_def filter_all_false)
  then have ct: "count_true (one_speckle A) = 1"
    by (simp add: count_true_def A m filter_all_false)
  have "fill_rows A (one_speckle A) [v] = (v # row) # rows"
    by (simp add: A m fill_row_all_false fill_rows_all_false)
  then show ?thesis using sh ct by (simp add: setitem_mask2_def A)
qed

lemma notebook_image_nonempty:
  "sin_cos_image (linspace 0 10 1000) \<noteq> []" "hd (sin_cos_image (linspace 0 10 1000)) \<noteq> []"
proof -
  have "length (linspace 0 10 1000) = 1000" by (rule length_linspace)
  then have ne: "linspace 0 10 1000 \<noteq> []" by auto
  then show "sin_cos_image (linspace 0 10 1000) \<noteq> []" by (simp add: sin_cos_image_def)
  show "hd (sin_cos_image (linspace 0 10 1000)) \<noteq> []"
    using ne by (simp add: sin_cos_image_def hd_map)
qed

lemma notebook_image_origin: "sin_cos_image (linspace 0 10 1000) ! 0 ! 0 = 0"
proof -
  have "length (linspace 0 10 1000) = 1000" by (rule length_linspace)
  moreover have "linspace 0 10 1000 ! 0 = 0" by (simp add: linspace_def)
  ultimately show ?thesis by (simp add: sin_cos_image_def)
qed

text \<open>
  The noise cell run after the cell that made the image: the name \<open>I\<close> still refers to
  the same object, and the object's entry at (0, 0) has changed from 0 to 3.
\<close>

theorem speckles_overwrite_image_counterexample:
  "value_of colorbars_before ''I'' = Some (Arr2 (sin_cos_image (linspace 0 10 1000))) \<and>
   sin_cos_image (linspace 0 10 1000) ! 0 ! 0 = 0 \<and>
   snd (run_cell colorbars_cell21 speckle_world colorbars_before) = None \<and>
   names (fst (run_cell colorbars_cell21 speckle_world colorbars_before)) ''I''
     = names colorbars_before ''I'' \<and>
   value_of (fst (run_cell colorbars_cell21 speckle_world colorbars_before)) ''I''
     = Some (Arr2 ((3 # tl (hd (sin_cos_image (linspace 0 10 1000)))) #
                   tl (sin_cos_image (linspace 0 10 1000)))) \<and>
   ((3 # tl (hd (sin_cos_image (linspace 0 10 1000)))) #
      tl (sin_cos_image (linspace 0 10 1000))) ! 0 ! 0 = (3::real)"
proof -
  note one = setitem_one_speckle [OF notebook_image_nonempty, of 3]
  have "value_of colorbars_before ''I'' = Some (Arr2 (sin_cos_image (linspace 0 10 1000))) \<and>
   snd (run_cell colorbars_cell21 speckle_world colorbars_before) = None \<and>
   names (fst (run_cell colorbars_cell21 speckle_world colorbars_before)) ''I''
     = names colorbars_before ''I'' \<and>
   value_of (fst (run_cell colorbars_cell21 speckle_world colorbars_before)) ''I''
     = Some (Arr2 ((3 # tl (hd (sin_cos_image (linspace 0 10 1000)))) #
                   tl (sin_cos_image (linspace 0 10 1000))))"
    by (simp add: colorbars_before_def colorbars_cell2_def colorbars_cell3_def
        colorbars_cell5_def colorbars_cell21_def speckle_world_def empty_kernel_def
        call_def assign_def compute_def setitem_masked_def bind_name_def value_of_def one)
  then show ?thesis using notebook_image_origin by simp
qed

lemma all_cells_split:
  "set (all_cells :: 'l stmt list list) = insert colorbars_cell21 (set other_cells)"
  unfolding all_cells_def all_notebooks_def other_cells_def
    intro_notebook_def scatter_notebook_def contour_notebook_def hist_notebook_def legends_notebook_def colorbars_notebook_def subplots_notebook_def text_notebook_def errorbars_notebook_def
  by (simp add: insert_commute)

text \<open>
  C4 (amended): every cell of every notebook other than the noise cell of the colorbar
  notebook leaves every array of the state it starts from unchanged. The noise cell
  leaves every object unchanged except the one \<open>I\<close> is bound to, keeps \<open>I\<close> bound to that
  object, and changes that array without changing its shape and only at positions
  where \<open>speckles\<close> is true.
\<close>

theorem arrays_unchanged_except_speckled_image:
  fixes s :: "'l kernel"
  assumes "wf_kernel s"
  shows "set (all_cells :: 'l stmt list list) = insert colorbars_cell21 (set other_cells) \<and>
         (c \<in> set other_cells \<longrightarrow> heap s a = Some v \<longrightarrow> is_array v \<longrightarrow>
            heap (fst (run_cell c w s)) a = Some v) \<and>
         (heap s a = Some v \<longrightarrow> names s ''I'' \<noteq> Some a \<longrightarrow>
            heap (fst (run_cell colorbars_cell21 w s)) a = Some v) \<and>
         names (fst (run_cell colorbars_cell21 w s)) ''I'' = names s ''I'' \<and>
         (value_of s ''I'' = Some (Arr2 A) \<longrightarrow>
            (\<exists>A'. value_of (fst (run_cell colorbars_cell21 w s)) ''I'' = Some (Arr2 A') \<and>
               map length A' = map length A \<and>
               (\<forall>M i j. value_of (fst (run_cell colorbars_cell21 w s)) ''speckles''
                    = Some (Mask2 M) \<longrightarrow>
                  i < length A \<longrightarrow> j < length (A ! i) \<longrightarrow> \<not> M ! i ! j \<longrightarrow>
                  A' ! i ! j = A ! i ! j)))"
proof -
  have others: "heap (fst (run_cell c w s)) a = Some v"
    if "c \<in> set other_cells" "heap s a = Some v" "is_array v"
  proof -
    have "list_all keeps_arrays c"
      using other_cells_keep_arrays that(1) by (auto simp: list_all_iff)
    from run_cell_arrays_kept [OF this assms, of w] that(2,3) show ?thesis
      by (simp add: arrays_kept_def)
  qed
  note cell = speckle_cell_effect [OF assms, of w]
  from all_cells_split others cell show ?thesis by blast
qed

lemma run_cell_wf:
  "list_all keeps_arrays c \<Longrightarrow> wf_kernel s \<Longrightarrow> wf_kernel (fst (run_cell c w s))"
  using run_cell_arrays_kept [of c s w] by (simp add: arrays_kept_def)

lemma wf_empty_kernel: "wf_kernel empty_kernel"
  by (simp add: wf_kernel_def empty_kernel_def)

theorem arrays_unchanged_except_speckled_image_witness:
  "wf_kernel colorbars_before \<and> (colorbars_cell24 :: nat stmt list) \<in> set other_cells \<and>
   heap colorbars_before 3 = Some (Arr2 (sin_cos_image (linspace 0 10 1000))) \<and>
   is_array (Arr2 (sin_cos_image (linspace 0 10 1000))) \<and>
   heap (fst (run_cell colorbars_cell24 speckle_world colorbars_before)) 3
     = Some (Arr2 (sin_cos_image (linspace 0 10 1000))) \<and>
   heap colorbars_before 2 = Some (Arr1 (linspace 0 10 1000)) \<and>
   names colorbars_before ''I'' \<noteq> Some 2 \<and>
   heap (fst (run_cell colorbars_cell21 speckle_world colorbars_before)) 2
     = Some (Arr1 (linspace 0 10 1000))"
proof -
  have k: "list_all keeps_arrays (colorbars_cell2 :: nat stmt list)"
    "list_all keeps_arrays (colorbars_cell3 :: nat stmt list)"
    "list_all keeps_arrays (colorbars_cell5 :: nat stmt list)"
    by (simp_all add: colorbars_cell2_def colorbars_cell3_def colorbars_cell5_def
        keeps_arrays_intros)
  have wf: "wf_kernel colorbars_before"
    unfolding colorbars_before_def
    by (intro run_cell_wf k wf_empty_kernel)
  have m: "(colorbars_cell24 :: nat stmt list) \<in> set other_cells"
    by (simp add: other_cells_def)
  have h: "heap colorbars_before 3 = Some (Arr2 (sin_cos_image (linspace 0 10 1000)))"
    "heap colorbars_before 2 = Some (Arr1 (linspace 0 10 1000))"
    "names colorbars_before ''I'' \<noteq> Some 2"
    by (simp_all add: colorbars_before_def colorbars_cell2_def colorbars_cell3_def
        colorbars_cell5_def speckle_world_def empty_kernel_def
        call_def assign_def compute_def bind_name_def value_of_def numeral_3_eq_3 numeral_2_eq_2)
  have a: "is_array (Arr2 (sin_cos_image (linspace 0 10 1000)))" by simp
  from arrays_unchanged_except_speckled_image [OF wf, where c = colorbars_cell24 and a = 3
      and v = "Arr2 (sin_cos_image (linspace 0 10 1000))" and w = speckle_world]
    arrays_unchanged_except_speckled_image [OF wf, where a = 2
      and v = "Arr1 (linspace 0 10 1000)" and w = speckle_world]
    wf m h a
  show ?thesis by simp
qed

subsection \<open>Library errors end the cell\<close>




lemma lib_bind_all [simp]: "lib (bind_all ns vs s) = lib s"
  by (induction ns vs s rule: bind_all.induct) (simp_all add: bind_name_def)

















end
